theory Spec2Isabelle
  imports Complex_Main "HOL-Library.AList"
begin

section \<open>JavaScript values and the geographic envelope\<close>

text \<open>
  A JavaScript number is a finite value, \<open>NaN\<close>, \<open>Infinity\<close> or \<open>-Infinity\<close>.  Finite
  values are modelled by the reals: comparisons and arithmetic are exact, and the
  rounding of double-precision numbers is not modelled.
\<close>

datatype jsnum = Num real | NaN | PosInf | NegInf

text \<open>
  A value found where a coordinate is expected is a number, or something else:
  \<open>undefined\<close>, \<open>null\<close>, a string, a boolean or an object.  The code treats such a value
  in three ways only: it converts it with \<open>Number(v)\<close> (arithmetic converts in the same
  way), it asks \<open>Number.isFinite(v)\<close>, which is false of everything but a finite number,
  and it calls \<open>v.toFixed\<close>, which throws for everything but a number.  So a value
  that is not a number is given here by the number that \<open>Number\<close> makes of it:
  \<open>Number(undefined)\<close> is \<open>NaN\<close>, \<open>Number(null)\<close> is \<open>0\<close>, \<open>Number("52.5")\<close> is \<open>52.5\<close>.
\<close>

datatype jsval = VNumber jsnum | VOther jsnum

abbreviation num :: "real \<Rightarrow> jsval" where
  "num x \<equiv> VNumber (Num x)"

definition undefinedV :: jsval where
  "undefinedV = VOther NaN"

definition nullV :: jsval where
  "nullV = VOther (Num 0)"

fun Number :: "jsval \<Rightarrow> jsnum" where
  "Number (VNumber n) = n"
| "Number (VOther n) = n"

fun isFinite :: "jsval \<Rightarrow> bool" where
  "isFinite (VNumber (Num x)) = True"
| "isFinite _ = False"

text \<open>\<open>UK_BOUNDS\<close> and \<open>inUkBounds(lat, lng)\<close>.\<close>

definition UK_minLat :: real where "UK_minLat = 49.8"
definition UK_maxLat :: real where "UK_maxLat = 60.95"
definition UK_minLng :: real where "UK_minLng = - 8.65"
definition UK_maxLng :: real where "UK_maxLng = 1.8"

fun inUkBounds :: "jsval \<Rightarrow> jsval \<Rightarrow> bool" where
  "inUkBounds (VNumber (Num y)) (VNumber (Num x)) =
     (y \<ge> UK_minLat \<and> y \<le> UK_maxLat \<and> x \<ge> UK_minLng \<and> x \<le> UK_maxLng)"
| "inUkBounds _ _ = False"

text \<open>
  An element of an array of points, as a routing payload, a cached polyline or a stored
  geometry may hold it: \<open>null\<close> (or \<open>undefined\<close>), on which \<open>c[1]\<close> throws; an array
  with its entries; or any other value, with what \<open>c[0]\<close> and \<open>c[1]\<close> read from it.
  An entry beyond the end of an array reads as \<open>undefined\<close>; \<open>at0 ENull\<close> is what the
  optional chaining of \<open>last?.[0]\<close> reads.
\<close>

datatype elem = ENull | EArr "jsval list" | EOther jsval jsval

fun at0 :: "elem \<Rightarrow> jsval" where
  "at0 (EArr (v # vs)) = v"
| "at0 (EOther v0 v1) = v0"
| "at0 _ = undefinedV"

fun at1 :: "elem \<Rightarrow> jsval" where
  "at1 (EArr (v # v' # vs)) = v'"
| "at1 (EOther v0 v1) = v1"
| "at1 _ = undefinedV"

section \<open>Strings\<close>

text \<open>
  Strings are lists of 8-bit code units, so the model covers JavaScript strings over
  Latin-1; every character class below is given by code-unit values.  \<open>isSpace\<close> is
  the regular-expression class \<open>\s\<close> (and the set that \<open>trim\<close> strips), \<open>isWordChar\<close> is
  \<open>\w\<close>, \<open>isDigit\<close> is \<open>\d\<close>, and \<open>isAlpha\<close> is \<open>[A-Z]\<close> under the \<open>i\<close> flag.
\<close>

definition code :: "char \<Rightarrow> nat" where
  "code c = of_char c"

definition isDigit :: "char \<Rightarrow> bool" where
  "isDigit c = (48 \<le> code c \<and> code c \<le> 57)"

definition isUpperAZ :: "char \<Rightarrow> bool" where
  "isUpperAZ c = (65 \<le> code c \<and> code c \<le> 90)"

definition isLowerAZ :: "char \<Rightarrow> bool" where
  "isLowerAZ c = (97 \<le> code c \<and> code c \<le> 122)"

definition isAlpha :: "char \<Rightarrow> bool" where
  "isAlpha c = (isUpperAZ c \<or> isLowerAZ c)"

definition isWordChar :: "char \<Rightarrow> bool" where
  "isWordChar c = (isAlpha c \<or> isDigit c \<or> code c = 95)"

definition isSpace :: "char \<Rightarrow> bool" where
  "isSpace c = (code c = 9 \<or> code c = 10 \<or> code c = 11 \<or> code c = 12 \<or> code c = 13
                \<or> code c = 32 \<or> code c = 160)"

text \<open>
  \<open>toLowerCase\<close> and \<open>toUpperCase\<close>, one code unit at a time.  Within Latin-1 the
  letters \<open>0xC0..0xDE\<close> (without \<open>0xD7\<close>) are the upper-case forms of
  \<open>0xE0..0xFE\<close> (without \<open>0xF7\<close>).  The upper-case forms of \<open>0xB5\<close>, \<open>0xDF\<close> and
  \<open>0xFF\<close> are not Latin-1; \<open>toUpperCase\<close> is only applied to text matched by
  \<open>[AM]\<close> and \<open>\d\<close>, so they are left alone here.
\<close>

definition lowerChar :: "char \<Rightarrow> char" where
  "lowerChar c =
     (if isUpperAZ c \<or> (192 \<le> code c \<and> code c \<le> 222 \<and> code c \<noteq> 215)
      then char_of (code c + 32) else c)"

definition upperChar :: "char \<Rightarrow> char" where
  "upperChar c =
     (if isLowerAZ c \<or> (224 \<le> code c \<and> code c \<le> 254 \<and> code c \<noteq> 247)
      then char_of (code c - 32) else c)"

definition toLowerCase :: "string \<Rightarrow> string" where
  "toLowerCase s = map lowerChar s"

definition toUpperCase :: "string \<Rightarrow> string" where
  "toUpperCase s = map upperChar s"

definition trim :: "string \<Rightarrow> string" where
  "trim s = rev (dropWhile isSpace (rev (dropWhile isSpace s)))"

text \<open>\<open>a || b\<close> on strings: the empty string is the only falsy one.\<close>

definition orElse :: "string \<Rightarrow> string \<Rightarrow> string" where
  "orElse a b = (if a \<noteq> [] then a else b)"

section \<open>Regular expressions\<close>

text \<open>
  The regular expressions of the source are data, run by a backtracking matcher that
  returns every way of matching in the order in which the JavaScript engine tries them
  (greedy quantifiers longest first, alternatives left to right); the engine's answer
  is the head of that list.  A matcher state holds the code unit before the current
  position (for \<open>\b\<close> and \<open>^\<close>), the rest of the input and the captures made so far.
\<close>

datatype re =
    Eps
  | Chr "char \<Rightarrow> bool"
  | Rep "char \<Rightarrow> bool" nat "nat option"
  | Seq re re
  | Alt re re
  | Opt re
  | Grp nat re
  | WordB
  | Bos
  | Eos

type_synonym mstate = "char option \<times> string \<times> (nat \<times> string) list"

fun lastOr :: "char option \<Rightarrow> string \<Rightarrow> char option" where
  "lastOr p [] = p"
| "lastOr p (c # cs) = lastOr (Some c) cs"

definition isWordAt :: "char option \<Rightarrow> bool" where
  "isWordAt p = (case p of None \<Rightarrow> False | Some c \<Rightarrow> isWordChar c)"

definition nextChar :: "string \<Rightarrow> char option" where
  "nextChar s = (case s of [] \<Rightarrow> None | c # _ \<Rightarrow> Some c)"

fun rmatch :: "re \<Rightarrow> mstate \<Rightarrow> mstate list" where
  "rmatch Eps st = [st]"
| "rmatch (Chr P) (p, s, g) =
     (case s of [] \<Rightarrow> [] | c # cs \<Rightarrow> if P c then [(Some c, cs, g)] else [])"
| "rmatch (Rep P lo hi) (p, s, g) =
     (let n = length (takeWhile P s);
          m = (case hi of None \<Rightarrow> n | Some h \<Rightarrow> min n h)
      in map (\<lambda>j. (lastOr p (take j s), drop j s, g)) (rev [lo ..< Suc m]))"
| "rmatch (Seq a b) st = concat (map (rmatch b) (rmatch a st))"
| "rmatch (Alt a b) st = rmatch a st @ rmatch b st"
| "rmatch (Opt a) st = rmatch a st @ [st]"
| "rmatch (Grp n a) (p, s, g) =
     map (\<lambda>(p', s', g'). (p', s', (n, take (length s - length s') s) # g'))
         (rmatch a (p, s, g))"
| "rmatch WordB (p, s, g) =
     (if isWordAt p \<noteq> isWordAt (nextChar s) then [(p, s, g)] else [])"
| "rmatch Bos (p, s, g) = (if p = None then [(p, s, g)] else [])"
| "rmatch Eos (p, s, g) = (if s = [] then [(p, s, g)] else [])"

text \<open>\<open>s.match(r)\<close> without the \<open>g\<close> flag: the first match at the leftmost position.\<close>

fun rsearch :: "re \<Rightarrow> char option \<Rightarrow> string \<Rightarrow> mstate option" where
  "rsearch r p [] = (case rmatch r (p, [], []) of [] \<Rightarrow> None | m # _ \<Rightarrow> Some m)"
| "rsearch r p (c # cs) =
     (case rmatch r (p, c # cs, []) of [] \<Rightarrow> rsearch r (Some c) cs | m # _ \<Rightarrow> Some m)"

text \<open>\<open>r.test(s)\<close>.\<close>

definition rtest :: "re \<Rightarrow> string \<Rightarrow> bool" where
  "rtest r s = (rsearch r None s \<noteq> None)"

text \<open>The value of capture group \<open>n\<close> of a match (\<open>None\<close> is \<open>undefined\<close>).\<close>

definition capture :: "nat \<Rightarrow> mstate \<Rightarrow> string option" where
  "capture n m = map_of (snd (snd m)) n"

text \<open>
  \<open>s.replace(r, rep)\<close> with the \<open>g\<close> flag.  After an empty match the engine copies one
  code unit and goes on behind it.
\<close>

function replaceAll :: "re \<Rightarrow> string \<Rightarrow> char option \<Rightarrow> string \<Rightarrow> string" where
  "replaceAll r rep p [] = (case rmatch r (p, [], []) of [] \<Rightarrow> [] | _ # _ \<Rightarrow> rep)"
| "replaceAll r rep p (c # cs) =
     (case rmatch r (p, c # cs, []) of
        [] \<Rightarrow> c # replaceAll r rep (Some c) cs
      | (p', s', _) # _ \<Rightarrow>
          if length s' < length (c # cs) then rep @ replaceAll r rep p' s'
          else rep @ c # replaceAll r rep (Some c) cs)"
  by pat_completeness auto
termination
  by (relation "measure (\<lambda>(r, rep, p, s). length s)") auto

text \<open>Building blocks for writing the patterns of the source.\<close>

definition seqs :: "re list \<Rightarrow> re" where
  "seqs rs = foldr Seq rs Eps"

definition never :: re where
  "never = Chr (\<lambda>_. False)"

definition alts :: "re list \<Rightarrow> re" where
  "alts rs = foldr Alt rs never"

definition lit :: "char \<Rightarrow> re" where
  "lit c = Chr (\<lambda>x. x = c)"

text \<open>A literal word under the \<open>i\<close> flag.\<close>

definition word_ci :: "string \<Rightarrow> re" where
  "word_ci w = seqs (map (\<lambda>c. Chr (\<lambda>x. lowerChar x = lowerChar c)) w)"

section \<open>Data model\<close>

text \<open>
  A coordinate object \<open>{lat, lng, displayName?}\<close>, a segment and a route as the store
  holds them (\<open>segFrom\<close> and \<open>segTo\<close> are the fields \<open>from\<close> and \<open>to\<close>).  A missing text
  field is the empty string and a missing object is \<open>None\<close>.  The coordinates of an
  object are whatever values the stored document has there; a stored geometry is an
  array of whatever elements were written.
\<close>

record point =
  lat :: jsval
  lng :: jsval
  displayName :: "string option"

record segment =
  road :: string
  segFrom :: string
  segTo :: string
  risk :: string
  fromCoords :: "point option"
  toCoords :: "point option"
  geometry :: "elem list option"
  comment :: string

record route =
  rid :: string
  title :: string
  startLabel :: string
  startPostcode :: string
  startCoords :: "point option"
  endLabel :: string
  endPostcode :: string
  endCoords :: "point option"
  segments :: "segment list"

datatype key = From | To

fun label :: "key \<Rightarrow> segment \<Rightarrow> string" where
  "label From seg = segFrom seg"
| "label To seg = segTo seg"

fun coordsOf :: "key \<Rightarrow> segment \<Rightarrow> point option" where
  "coordsOf From seg = fromCoords seg"
| "coordsOf To seg = toCoords seg"

text \<open>\<open>segs[i]\<close>: \<open>undefined\<close> out of range.\<close>

definition segAt :: "segment list \<Rightarrow> int \<Rightarrow> segment option" where
  "segAt segs i = (if 0 \<le> i \<and> i < int (length segs) then Some (segs ! nat i) else None)"

section \<open>LabelClassifier\<close>

definition isAM :: "char \<Rightarrow> bool" where
  "isAM c = (c = CHR ''A'' \<or> c = CHR ''M'' \<or> c = CHR ''a'' \<or> c = CHR ''m'')"

text \<open>\<open>/\b[A-Z]{1,2}\d{1,2}[A-Z]?\s*\d[A-Z]{2}\b/i\<close>\<close>

definition postcodeRe :: re where
  "postcodeRe = seqs [WordB, Rep isAlpha 1 (Some 2), Rep isDigit 1 (Some 2),
                      Rep isAlpha 0 (Some 1), Rep isSpace 0 None, Chr isDigit,
                      Rep isAlpha 2 (Some 2), WordB]"

text \<open>\<open>/^(at|take|then|turn|continue|bear|keep|follow|exit|slip)\b/i\<close>\<close>

definition instructionStartRe :: re where
  "instructionStartRe =
     seqs [Bos,
           Grp 1 (alts (map word_ci [''at'', ''take'', ''then'', ''turn'', ''continue'',
                                     ''bear'', ''keep'', ''follow'', ''exit'', ''slip''])),
           WordB]"

text \<open>\<open>/\b(roundabout|flyover|1st|2nd|3rd|4th|5th)\b/i\<close>\<close>

definition junctionWordRe :: re where
  "junctionWordRe =
     seqs [WordB,
           Grp 1 (alts (map word_ci [''roundabout'', ''flyover'', ''1st'', ''2nd'', ''3rd'',
                                     ''4th'', ''5th''])),
           WordB]"

text \<open>\<open>/\b(exit|take|onto|into)\b/i\<close>\<close>

definition actionWordRe :: re where
  "actionWordRe =
     seqs [WordB, Grp 1 (alts (map word_ci [''exit'', ''take'', ''onto'', ''into''])), WordB]"

definition isInstructionLikeLabel :: "string \<Rightarrow> bool" where
  "isInstructionLikeLabel v =
     (let s = trim v in
      if s = [] then True
      else if rtest postcodeRe s then False
      else if rtest instructionStartRe s then True
      else if rtest junctionWordRe s \<and> rtest actionWordRe s then True
      else False)"

text \<open>\<open>/\b([AM]\d{1,3})(?:\s*\/\s*([AM]?\d{1,3}))?\b/i\<close>\<close>

definition roadTokenRe :: re where
  "roadTokenRe =
     seqs [WordB,
           Grp 1 (seqs [Chr isAM, Rep isDigit 1 (Some 3)]),
           Opt (seqs [Rep isSpace 0 None, lit CHR ''/'', Rep isSpace 0 None,
                      Grp 2 (seqs [Rep isAM 0 (Some 1), Rep isDigit 1 (Some 3)])]),
           WordB]"

definition extractRoadToken :: "string \<Rightarrow> string" where
  "extractRoadToken v =
     (case rsearch roadTokenRe None v of
        None \<Rightarrow> []
      | Some m \<Rightarrow>
          (case (capture 1 m, capture 2 m) of
             (Some m1, Some m2) \<Rightarrow>
               if m2 \<noteq> [] then toUpperCase m1 @ ''/'' @ toUpperCase m2 else toUpperCase m1
           | (Some m1, None) \<Rightarrow> toUpperCase m1
           | (None, _) \<Rightarrow> []))"

text \<open>\<open>/^[AM]\d{1,3}(?:\s*\/\s*[AM]?\d{1,3})?$/i\<close>\<close>

definition roadOnlyRe :: re where
  "roadOnlyRe =
     seqs [Bos, Chr isAM, Rep isDigit 1 (Some 3),
           Opt (seqs [Rep isSpace 0 None, lit CHR ''/'', Rep isSpace 0 None,
                      Rep isAM 0 (Some 1), Rep isDigit 1 (Some 3)]),
           Eos]"

definition isRoadOnlyLabel :: "string \<Rightarrow> bool" where
  "isRoadOnlyLabel v = (let s = trim v in if s = [] then False else rtest roadOnlyRe s)"

text \<open>
  The fallback to a neighbouring segment inside \<open>effectiveLabelForEndpoint\<close>: the
  neighbour's opposite label if it is a real place, else a road token of that label or
  of the neighbour's road, else the road name, else the raw label.
\<close>

definition neighbourLabel :: "string \<Rightarrow> string \<Rightarrow> string \<Rightarrow> string" where
  "neighbourLabel other otherRoad raw =
     (let tok = orElse (extractRoadToken other) (extractRoadToken otherRoad) in
      if \<not> isInstructionLikeLabel other \<and> other \<noteq> [] then other
      else orElse tok (orElse (trim otherRoad) raw))"

text \<open>\<open>String(seg?.[key] ?? "").trim()\<close> for \<open>seg = segs[i]\<close>.\<close>

definition rawLabel :: "segment list \<Rightarrow> nat \<Rightarrow> key \<Rightarrow> string" where
  "rawLabel segs i k = trim (case segAt segs (int i) of None \<Rightarrow> [] | Some seg \<Rightarrow> label k seg)"

definition effectiveLabelForEndpoint :: "route \<Rightarrow> segment list \<Rightarrow> nat \<Rightarrow> key \<Rightarrow> string" where
  "effectiveLabelForEndpoint r segs i k =
     (let raw = rawLabel segs i k in
      if isRoadOnlyLabel raw then []
      else if \<not> isInstructionLikeLabel raw then raw
      else
        let tok = extractRoadToken raw in
        if tok \<noteq> [] then tok
        else if k = To \<and> int i = int (length segs) - 1
          then orElse (trim (orElse (endPostcode r) (endLabel r))) raw
        else if k = From \<and> i = 0
          then orElse (trim (orElse (startPostcode r) (startLabel r))) raw
        else if k = To \<and> int i + 1 < int (length segs)
          then (case segAt segs (int i + 1) of
                  None \<Rightarrow> neighbourLabel [] [] raw
                | Some nx \<Rightarrow> neighbourLabel (trim (segFrom nx)) (road nx) raw)
        else if k = From \<and> int i - 1 \<ge> 0
          then (case segAt segs (int i - 1) of
                  None \<Rightarrow> neighbourLabel [] [] raw
                | Some pv \<Rightarrow> neighbourLabel (trim (segTo pv)) (road pv) raw)
        else raw)"

section \<open>Great-circle distance\<close>

text \<open>
  \<open>haversineMetersSimple\<close> and the builder's \<open>haversineKm\<close> have the same body and
  differ in the radius \<open>R\<close>.  The coordinates enter the arithmetic through \<open>Number\<close>.
  \<open>Math.sqrt\<close> of a negative number and \<open>Math.asin\<close> outside \<open>[-1, 1]\<close> are \<open>NaN\<close>, as is
  every result computed from a coordinate that is not finite; so the result is a
  finite number or \<open>NaN\<close>.
\<close>

definition toRad :: "real \<Rightarrow> real" where
  "toRad deg = (deg * pi) / 180"

definition haversine :: "real \<Rightarrow> point \<Rightarrow> point \<Rightarrow> jsnum" where
  "haversine R a b =
     (case (Number (lat a), Number (lng a), Number (lat b), Number (lng b)) of
        (Num alat, Num alng, Num blat, Num blng) \<Rightarrow>
          (let dLat = toRad (blat - alat);
               dLng = toRad (blng - alng);
               lat1 = toRad alat;
               lat2 = toRad blat;
               s1 = sin (dLat / 2);
               s2 = sin (dLng / 2);
               h = s1 * s1 + cos lat1 * cos lat2 * s2 * s2
           in if h < 0 \<or> h > 1 then NaN else Num (2 * R * arcsin (sqrt h)))
      | _ \<Rightarrow> NaN)"

definition haversineMetersSimple :: "point \<Rightarrow> point \<Rightarrow> jsnum" where
  "haversineMetersSimple a b = haversine 6371000 a b"

definition haversineKm :: "point \<Rightarrow> point \<Rightarrow> jsnum" where
  "haversineKm a b = haversine 6371 a b"

section \<open>Storage, network and map widget\<close>

text \<open>
  The two caches live in \<open>localStorage\<close>; they, the log of network requests and the
  number of storage operations made so far are the state that every operation
  threads.  The world outside is given by four functions.  The two services answer as
  functions of the number of requests made so far and of the request, so their answers
  may change over time; an answer \<open>None\<close> is a failed request, a response that is not
  \<open>ok\<close>, a body that is not JSON, or a payload without the expected array.  \<open>storage\<close>
  says of each storage operation, by its number, whether it succeeds or throws: the
  code wraps every \<open>getItem\<close>, \<open>setItem\<close> and \<open>removeItem\<close> in a \<open>try\<close> and goes on when
  one throws.  \<open>draws\<close> says whether the map widget's \<open>L.polyline\<close> (with \<open>addTo\<close> and
  \<open>bindPopup\<close>) returns for a list of points or throws.  The fixed delays before the
  requests are left out.

  A Photon feature holds the values of \<open>f.geometry.coordinates[0]\<close> and \<open>[1]\<close> and of
  \<open>properties.name\<close> and \<open>properties.label\<close>.  The routing payload is the array
  \<open>routes[0].geometry.coordinates\<close> with whatever elements it has.  Both come from
  JSON documents, and a stored item is taken to be a JSON object; so what is written to
  a store is read back as it was written.
\<close>

record feature =
  flng :: jsval
  flat :: jsval
  fname :: string
  flabel :: string

datatype request = PhotonReq string | OsrmReq point point

record world =
  photon :: "nat \<Rightarrow> string \<Rightarrow> feature list option"
  osrm :: "nat \<Rightarrow> point \<Rightarrow> point \<Rightarrow> elem list option"
  storage :: "nat \<Rightarrow> bool"
  draws :: "(jsval \<times> jsval) list \<Rightarrow> bool"

text \<open>
  A value of the geocode cache object: a number such as the one under \<open>__v\<close> (\<open>0\<close>
  also stands for every other falsy value), a cached place, or any other truthy value.
  Both cache objects are lists of properties in insertion order, which is the order of
  \<open>Object.keys\<close>; an absent item reads as the empty object, so \<open>removeItem\<close> leaves the
  empty list.
\<close>

datatype gval = GNum int | GPlace point | GOther

text \<open>
  A value of the routing cache object: an array of elements, or a value that is not an
  array, with its truthiness.
\<close>

datatype stored = SArr "elem list" | SOther bool

text \<open>
  \<open>x.toFixed(6)\<close>: for a finite number the sign and the magnitude rounded to a whole
  number of millionths, for the other numbers \<open>"NaN"\<close>, \<open>"Infinity"\<close> and
  \<open>"-Infinity"\<close>.  On a value that is not a number the call throws (\<open>None\<close>).
\<close>

datatype fixed6 = Fixed bool nat | FixedNaN | FixedInfinity | FixedMinusInfinity

fun toFixed6 :: "jsval \<Rightarrow> fixed6 option" where
  "toFixed6 (VNumber (Num x)) = Some (Fixed (x < 0) (nat \<lfloor>\<bar>x\<bar> * 1000000 + 1 / 2\<rfloor>))"
| "toFixed6 (VNumber NaN) = Some FixedNaN"
| "toFixed6 (VNumber PosInf) = Some FixedInfinity"
| "toFixed6 (VNumber NegInf) = Some FixedMinusInfinity"
| "toFixed6 (VOther n) = None"

type_synonym okey = "(fixed6 \<times> fixed6) \<times> (fixed6 \<times> fixed6)"

record state =
  geocodeStore :: "(string \<times> gval) list"
  osrmStore :: "(okey \<times> stored) list"
  requests :: "request list"
  ops :: nat

datatype error =
    MissingGeocodeLabel
  | NoMatch string
  | OutOfUkBounds string
  | BadEndpoint string
  | UnrealisticJump
  | TypeError
  | DrawError

text \<open>
  \<open>readJSON\<close> on either cache: the stored object, or the fallback \<open>{}\<close> when reading
  throws.  \<open>writeJSON\<close> and \<open>removeItem\<close>: the new content, or the old one when the
  operation throws.
\<close>

definition readGeocode :: "world \<Rightarrow> state \<Rightarrow> (string \<times> gval) list \<times> state" where
  "readGeocode w s =
     (if storage w (ops s) then geocodeStore s else [], s\<lparr>ops := ops s + 1\<rparr>)"

definition writeGeocode :: "world \<Rightarrow> (string \<times> gval) list \<Rightarrow> state \<Rightarrow> state" where
  "writeGeocode w v s =
     (if storage w (ops s) then s\<lparr>geocodeStore := v, ops := ops s + 1\<rparr>
      else s\<lparr>ops := ops s + 1\<rparr>)"

definition readOsrm :: "world \<Rightarrow> state \<Rightarrow> (okey \<times> stored) list \<times> state" where
  "readOsrm w s =
     (if storage w (ops s) then osrmStore s else [], s\<lparr>ops := ops s + 1\<rparr>)"

definition writeOsrm :: "world \<Rightarrow> (okey \<times> stored) list \<Rightarrow> state \<Rightarrow> state" where
  "writeOsrm w v s =
     (if storage w (ops s) then s\<lparr>osrmStore := v, ops := ops s + 1\<rparr>
      else s\<lparr>ops := ops s + 1\<rparr>)"

section \<open>GeocodeCache\<close>

definition GEOCODE_CACHE_VERSION :: int where
  "GEOCODE_CACHE_VERSION = 2"

text \<open>
  Reading \<open>freshCache[k]\<close> finds inherited properties too: of the names of
  \<open>Object.prototype\<close> only \<open>__proto__\<close> and \<open>constructor\<close> are lower case, and \<open>k\<close> is.
  Assigning \<open>freshCache["__proto__"]\<close> sets the prototype and adds no property unless
  the object has one of that name.
\<close>

definition objGet :: "(string \<times> gval) list \<Rightarrow> string \<Rightarrow> gval option" where
  "objGet m k =
     (case map_of m k of
        Some v \<Rightarrow> Some v
      | None \<Rightarrow> if k = ''__proto__'' \<or> k = ''constructor'' then Some GOther else None)"

definition objSet :: "(string \<times> gval) list \<Rightarrow> string \<Rightarrow> gval \<Rightarrow> (string \<times> gval) list" where
  "objSet m k v = (if k = ''__proto__'' \<and> map_of m k = None then m else AList.update k v m)"

fun truthy :: "gval option \<Rightarrow> bool" where
  "truthy None = False"
| "truthy (Some (GNum n)) = (n \<noteq> 0)"
| "truthy (Some (GPlace p)) = True"
| "truthy (Some GOther) = True"

text \<open>The cached place under \<open>k\<close> when it passes \<open>inUkBounds(c?.lat, c?.lng)\<close>.\<close>

fun cachedPlace :: "gval option \<Rightarrow> point option" where
  "cachedPlace (Some (GPlace c)) = (if inUkBounds (lat c) (lng c) then Some c else None)"
| "cachedPlace _ = None"

text \<open>\<open>normalizeQ\<close>\<close>

definition normalizeQ :: "string \<Rightarrow> string" where
  "normalizeQ q =
     (let s = trim q in
      if s = [] then s
      else
        (replaceAll (Rep isSpace 2 None) '' '' None
        (replaceAll (seqs [WordB, word_ci ''R/A'', WordB]) ''Roundabout'' None
        (replaceAll (seqs [WordB, word_ci ''Rdbt'', WordB]) ''Roundabout'' None
        (replaceAll (seqs [WordB, word_ci ''Jnc'', WordB]) ''Junction'' None
        (replaceAll (seqs [WordB, word_ci ''Jn'', WordB]) ''Junction'' None
        (replaceAll (seqs [WordB, word_ci ''near'', WordB]) '' '' None
        (replaceAll (lit CHR ''/'') '' '' None s))))))))"

text \<open>
  The loop that picks the candidate closest to the hint, each candidate being read as
  \<open>{lat: Number(c[1]), lng: Number(c[0])}\<close>.  \<open>bestD\<close> starts at \<open>Infinity\<close>, which is
  \<open>None\<close> here; a distance is finite or \<open>NaN\<close>, and a comparison with \<open>NaN\<close> is false.
\<close>

definition featurePoint :: "feature \<Rightarrow> point" where
  "featurePoint f =
     \<lparr>lat = VNumber (Number (flat f)), lng = VNumber (Number (flng f)), displayName = None\<rparr>"

fun nearest :: "point \<Rightarrow> feature list \<Rightarrow> feature \<times> real option \<Rightarrow> feature \<times> real option" where
  "nearest hint [] acc = acc"
| "nearest hint (f # fs) (best, bestD) =
     (case haversineMetersSimple hint (featurePoint f) of
        Num d \<Rightarrow>
          if (case bestD of None \<Rightarrow> True | Some bd \<Rightarrow> d < bd)
          then nearest hint fs (f, Some d)
          else nearest hint fs (best, bestD)
      | _ \<Rightarrow> nearest hint fs (best, bestD))"

definition MAX_HINT_DISTANCE_M :: real where
  "MAX_HINT_DISTANCE_M = 120000"

text \<open>\<open>hint && Number.isFinite(hint.lat) && Number.isFinite(hint.lng)\<close>\<close>

definition usableHint :: "point option \<Rightarrow> point option" where
  "usableHint hint =
     (case hint of
        None \<Rightarrow> None
      | Some h \<Rightarrow> if isFinite (lat h) \<and> isFinite (lng h) then Some h else None)"

text \<open>
  The filter of \<open>tryFetch\<close>: \<open>inUkBounds(Number(c?.[1]), Number(c?.[0]))\<close>.
\<close>

definition featureInBounds :: "feature \<Rightarrow> bool" where
  "featureInBounds f = inUkBounds (VNumber (Number (flat f))) (VNumber (Number (flng f)))"

text \<open>The choice among the features of one response (\<open>tryFetch\<close> after the request).\<close>

definition chooseFeature :: "point option \<Rightarrow> feature list option \<Rightarrow> feature option" where
  "chooseFeature hint resp =
     (case resp of
        None \<Rightarrow> None
      | Some feats \<Rightarrow>
          (case filter featureInBounds feats of
             [] \<Rightarrow> None
           | c0 # cs \<Rightarrow>
               (case usableHint hint of
                  Some h \<Rightarrow>
                    (case nearest h (c0 # cs) (c0, None) of
                       (best, None) \<Rightarrow> None
                     | (best, Some bestD) \<Rightarrow>
                         if bestD > MAX_HINT_DISTANCE_M then None else Some best)
                | None \<Rightarrow> Some c0)))"

definition tryFetch :: "world \<Rightarrow> point option \<Rightarrow> string \<Rightarrow> state \<Rightarrow> feature option \<times> state" where
  "tryFetch w hint q s =
     (let qq = normalizeQ q;
          resp = photon w (length (requests s)) qq
      in (chooseFeature hint resp, s\<lparr>requests := requests s @ [PhotonReq qq]\<rparr>))"

text \<open>The cache key \<open>String(label || "").trim().toLowerCase()\<close>.\<close>

definition cacheKey :: "string \<Rightarrow> string" where
  "cacheKey lbl = toLowerCase (trim lbl)"

text \<open>\<open>freshCache\<close>: the object read if its \<open>__v\<close> is the current version, else a new one.\<close>

definition currentVersion :: "(string \<times> gval) list \<Rightarrow> bool" where
  "currentVersion cache = (map_of cache ''__v'' = Some (GNum GEOCODE_CACHE_VERSION))"

definition freshCacheOf :: "(string \<times> gval) list \<Rightarrow> (string \<times> gval) list" where
  "freshCacheOf cache =
     (if currentVersion cache then cache else [(''__v'', GNum GEOCODE_CACHE_VERSION)])"

text \<open>The place that a lookup of \<open>k\<close> returns from the cache, if it does.\<close>

definition cacheHit :: "(string \<times> gval) list \<Rightarrow> string \<Rightarrow> point option" where
  "cacheHit freshCache k =
     (if truthy (objGet freshCache k) then cachedPlace (objGet freshCache k) else None)"

text \<open>The place \<open>out\<close> built from the chosen feature.\<close>

definition placeOf :: "feature \<Rightarrow> string \<Rightarrow> point" where
  "placeOf f lbl =
     \<lparr>lat = VNumber (Number (flat f)), lng = VNumber (Number (flng f)),
      displayName = Some (orElse (fname f) (orElse (flabel f) lbl))\<rparr>"

definition geocodePlace ::
  "world \<Rightarrow> string \<Rightarrow> point option \<Rightarrow> state \<Rightarrow> (error + point) \<times> state" where
  "geocodePlace w lbl hint s0 =
     (let (cache, sr) = readGeocode w s0;
          s1 = (if currentVersion cache then sr else writeGeocode w [] sr);
          freshCache = freshCacheOf cache;
          k = cacheKey lbl
      in if k = [] then (Inl MissingGeocodeLabel, s1)
         else
           (case cacheHit freshCache k of
              Some c \<Rightarrow> (Inr c, s1)
            | None \<Rightarrow>
                (let purged = truthy (objGet freshCache k);
                     freshCache2 = (if purged then AList.delete k freshCache else freshCache);
                     s2 = (if purged then writeGeocode w freshCache2 s1 else s1);
                     (hit1, s3) = tryFetch w hint (lbl @ '', UK'') s2;
                     (hit, s4) = (case hit1 of Some f \<Rightarrow> (Some f, s3)
                                  | None \<Rightarrow> tryFetch w hint lbl s3)
                 in case hit of
                      None \<Rightarrow> (Inl (NoMatch lbl), s4)
                    | Some f \<Rightarrow>
                        (let out = placeOf f lbl
                         in if \<not> inUkBounds (lat out) (lng out)
                            then (Inl (OutOfUkBounds lbl), s4)
                            else (Inr out,
                                  writeGeocode w (objSet freshCache2 k (GPlace out)) s4)))))"

section \<open>AnchorResolver\<close>

text \<open>
  \<open>resolveOverride\<close> reads the coordinates through \<open>Number\<close>, so it accepts an override
  whose \<open>lng\<close> is \<open>null\<close> (that is \<open>0\<close>) or whose coordinates are numeric strings, and
  it returns the converted numbers.  Of a missing override it reads \<open>undefined\<close>.
\<close>

definition resolveOverride :: "point option \<Rightarrow> point option" where
  "resolveOverride coords =
     (let la = Number (case coords of None \<Rightarrow> undefinedV | Some c \<Rightarrow> lat c);
          lo = Number (case coords of None \<Rightarrow> undefinedV | Some c \<Rightarrow> lng c)
      in if inUkBounds (VNumber la) (VNumber lo)
         then Some \<lparr>lat = VNumber la, lng = VNumber lo, displayName = Some ''Override''\<rparr>
         else None)"

definition resolveEndpoint ::
  "world \<Rightarrow> segment \<Rightarrow> key \<Rightarrow> point option \<Rightarrow> string option \<Rightarrow> state \<Rightarrow> (error + point) \<times> state" where
  "resolveEndpoint w seg k hint labelOverride s =
     (case resolveOverride (coordsOf k seg) of
        Some override \<Rightarrow> (Inr override, s)
      | None \<Rightarrow>
          (let raw = trim (case labelOverride of Some l \<Rightarrow> l | None \<Rightarrow> label k seg) in
           if raw = [] then
             (case usableHint hint of
                Some h \<Rightarrow> (Inr h, s)
              | None \<Rightarrow> (Inl MissingGeocodeLabel, s))
           else geocodePlace w raw hint s))"

section \<open>RouteCache\<close>

text \<open>An element that is an array of at least two entries, the first two finite numbers.\<close>

fun elemPair :: "elem \<Rightarrow> (real \<times> real) option" where
  "elemPair (EArr (VNumber (Num x) # VNumber (Num y) # rest)) = Some (x, y)"
| "elemPair _ = None"

text \<open>
  \<open>looksSane\<close>: the stored value is an array of at least two such elements.
  \<open>sanePoints\<close> gives their \<open>[lng, lat]\<close> pairs, from which the bounding box is taken.
\<close>

definition sanePoints :: "stored \<Rightarrow> (real \<times> real) list option" where
  "sanePoints v =
     (case v of
        SArr es \<Rightarrow> if length es \<ge> 2 then those (map elemPair es) else None
      | SOther t \<Rightarrow> None)"

definition looksSane :: "stored \<Rightarrow> bool" where
  "looksSane v = (sanePoints v \<noteq> None)"

fun truthyStored :: "stored \<Rightarrow> bool" where
  "truthyStored (SArr es) = True"
| "truthyStored (SOther t) = t"

text \<open>The bounding box \<open>(minLat, maxLat, minLng, maxLng)\<close> as the loop computes it.\<close>

definition bbox :: "(real \<times> real) list \<Rightarrow> real \<times> real \<times> real \<times> real" where
  "bbox coords =
     foldl (\<lambda>(minLat, maxLat, minLng, maxLng) (x, y).
              (min minLat y, max maxLat y, min minLng x, max maxLng x))
           (90, - 90, 180, - 180) coords"

definition withinBox :: "(real \<times> real) list \<Rightarrow> bool" where
  "withinBox coords =
     (case bbox coords of
        (minLat, maxLat, minLng, maxLng) \<Rightarrow>
          minLat > 45 \<and> maxLat < 62 \<and> minLng > - 12 \<and> maxLng < 5)"

text \<open>
  The key \<open>`${from.lng.toFixed(6)},${from.lat.toFixed(6)}|${to.lng.toFixed(6)},...`\<close>;
  building it throws when a coordinate is not a number.
\<close>

definition osrmKey :: "point \<Rightarrow> point \<Rightarrow> okey option" where
  "osrmKey a b =
     (case (toFixed6 (lng a), toFixed6 (lat a), toFixed6 (lng b), toFixed6 (lat b)) of
        (Some alng, Some alat, Some blng, Some blat) \<Rightarrow> Some ((alng, alat), (blng, blat))
      | _ \<Rightarrow> None)"

text \<open>Once the object has more than 250 keys, the first 50 are deleted.\<close>

definition evict :: "(okey \<times> stored) list \<Rightarrow> (okey \<times> stored) list" where
  "evict cache =
     (let keys = map fst cache in
      if length keys > 250 then foldl (\<lambda>c k. AList.delete k c) cache (take 50 keys)
      else cache)"

text \<open>The cached array under \<open>k\<close> that a lookup returns, if it returns one.\<close>

definition cachedRoute :: "(okey \<times> stored) list \<Rightarrow> okey \<Rightarrow> elem list option" where
  "cachedRoute cache k =
     (case map_of cache k of
        None \<Rightarrow> None
      | Some v \<Rightarrow>
          if truthyStored v then
            (case sanePoints v of
               None \<Rightarrow> None
             | Some coords \<Rightarrow>
                 if withinBox coords then (case v of SArr es \<Rightarrow> Some es | SOther t \<Rightarrow> None)
                 else None)
          else None)"

definition osrmRoute ::
  "world \<Rightarrow> point \<Rightarrow> point \<Rightarrow> state \<Rightarrow> (error + elem list option) \<times> state" where
  "osrmRoute w a b s0 =
     (let (cache, s1) = readOsrm w s0 in
      case osrmKey a b of
        None \<Rightarrow> (Inl TypeError, s1)
      | Some k \<Rightarrow>
          (case cachedRoute cache k of
             Some coords \<Rightarrow> (Inr (Some coords), s1)
           | None \<Rightarrow>
               (let dropped = (case map_of cache k of None \<Rightarrow> False | Some v \<Rightarrow> truthyStored v);
                    cache1 = (if dropped then AList.delete k cache else cache);
                    s2 = (if dropped then writeOsrm w cache1 s1 else s1);
                    resp = osrm w (length (requests s2)) a b;
                    s3 = s2\<lparr>requests := requests s2 @ [OsrmReq a b]\<rparr>
                in case resp of
                     None \<Rightarrow> (Inr None, s3)
                   | Some coords \<Rightarrow>
                       if length coords < 2 then (Inr None, s3)
                       else (Inr (Some coords),
                             writeOsrm w (evict (AList.update k (SArr coords) cache1)) s3))))"

section \<open>PathBuilder\<close>

text \<open>
  The body of \<open>drawRoutesOnMap\<close> for one route.  The map layer is the list of polylines
  added so far; status texts and the contents of popups are left out.
\<close>

record polyline =
  latlngs :: "(jsval \<times> jsval) list"
  color :: string
  weight :: nat
  opacity :: real
  dashArray :: "string option"

record bstate =
  prev :: "point option"
  failedSegments :: nat
  layer :: "polyline list"
  bounds :: "(jsval \<times> jsval) list"
  env :: state

definition riskColor :: "string \<Rightarrow> string" where
  "riskColor r = (if r = ''H'' then ''#ef4444'' else if r = ''M'' then ''#f59e0b'' else ''#22c55e'')"

text \<open>\<open>x && inUkBounds(x.lat, x.lng) ? {lat: Number(x.lat), lng: Number(x.lng)} : ...\<close>\<close>

definition pinned :: "point option \<Rightarrow> point option" where
  "pinned coords =
     (case coords of
        None \<Rightarrow> None
      | Some c \<Rightarrow>
          if inUkBounds (lat c) (lng c)
          then Some \<lparr>lat = VNumber (Number (lat c)), lng = VNumber (Number (lng c)),
                     displayName = None\<rparr>
          else None)"

text \<open>The initial chain anchor.\<close>

definition initPrev :: "world \<Rightarrow> route \<Rightarrow> state \<Rightarrow> point option \<times> state" where
  "initPrev w r s =
     (let startAnchorLabel = trim (orElse (startPostcode r) (startLabel r)) in
      if startAnchorLabel \<noteq> [] then
        (case pinned (startCoords r) of
           Some p \<Rightarrow> (Some p, s)
         | None \<Rightarrow>
             (case geocodePlace w startAnchorLabel None s of
                (Inr p, s') \<Rightarrow> (Some p, s')
              | (Inl e, s') \<Rightarrow> (None, s')))
      else (None, s))"

text \<open>\<open>nextAnchorLabel\<close> and its \<open>pick\<close>.\<close>

definition pick :: "string \<Rightarrow> string" where
  "pick v =
     (if v = [] then []
      else if isRoadOnlyLabel v then []
      else if \<not> isInstructionLikeLabel v then v
      else if rtest postcodeRe v then v
      else [])"

fun nextAnchorFrom :: "route \<Rightarrow> segment list \<Rightarrow> string" where
  "nextAnchorFrom r [] = trim (orElse (endPostcode r) (endLabel r))"
| "nextAnchorFrom r (sg # rest) =
     (let p1 = pick (trim (segFrom sg)) in
      if p1 \<noteq> [] then p1
      else
        let p2 = pick (trim (segTo sg)) in
        if p2 \<noteq> [] then p2 else nextAnchorFrom r rest)"

definition nextAnchorLabel :: "route \<Rightarrow> segment list \<Rightarrow> nat \<Rightarrow> string" where
  "nextAnchorLabel r segs idx = nextAnchorFrom r (drop (idx + 1) segs)"

text \<open>
  \<open>looksLikeRoadOnly\<close>: \<open>/^[AM]\d+\b/i\<close>, \<open>/^A\d+\/?A?\d*\b/i\<close>, \<open>/^M\d+\b/i\<close> or
  \<open>/\bJn\b/i\<close>.
\<close>

definition looksLikeRoadOnly :: "string \<Rightarrow> bool" where
  "looksLikeRoadOnly v =
     (let s = trim v in
      if s = [] then True
      else rtest (seqs [Bos, Chr isAM, Rep isDigit 1 None, WordB]) s
         \<or> rtest (seqs [Bos, word_ci ''A'', Rep isDigit 1 None, Rep (\<lambda>c. c = CHR ''/'') 0 (Some 1),
                         Rep (\<lambda>c. lowerChar c = CHR ''a'') 0 (Some 1), Rep isDigit 0 None, WordB]) s
         \<or> rtest (seqs [Bos, word_ci ''M'', Rep isDigit 1 None, WordB]) s
         \<or> rtest (seqs [WordB, word_ci ''Jn'', WordB]) s)"

text \<open>
  The FROM point: the chain anchor if there is one, else the pinned \<open>fromCoords\<close>, else
  the geocoded label unless it looks like a road.  \<open>Inr None\<close> is an unresolved point.
\<close>

definition resolveFrom ::
  "world \<Rightarrow> segment \<Rightarrow> string \<Rightarrow> bstate \<Rightarrow> (error + point option) \<times> bstate" where
  "resolveFrom w seg fromLabel st =
     (case prev st of
        Some a \<Rightarrow> (Inr (Some a), st)
      | None \<Rightarrow>
          (case pinned (fromCoords seg) of
             Some a \<Rightarrow> (Inr (Some a), st)
           | None \<Rightarrow>
               if fromLabel \<noteq> [] \<and> \<not> looksLikeRoadOnly fromLabel then
                 (case geocodePlace w fromLabel None (env st) of
                    (Inr a, e') \<Rightarrow> (Inr (Some a), st\<lparr>env := e'\<rparr>)
                  | (Inl err, e') \<Rightarrow> (Inl err, st\<lparr>env := e'\<rparr>))
               else (Inr None, st)))"

text \<open>The TO point, resolved near the FROM point \<open>a\<close>.\<close>

definition resolveTo ::
  "world \<Rightarrow> segment \<Rightarrow> string \<Rightarrow> point \<Rightarrow> bstate \<Rightarrow> (error + point option) \<times> bstate" where
  "resolveTo w seg toLabel a st =
     (case pinned (toCoords seg) of
        Some b \<Rightarrow> (Inr (Some b), st)
      | None \<Rightarrow>
          if toLabel \<noteq> [] then
            (case geocodePlace w toLabel (Some a) (env st) of
               (Inr b, e') \<Rightarrow> (Inr (Some b), st\<lparr>env := e'\<rparr>)
             | (Inl err, e') \<Rightarrow> (Inl err, st\<lparr>env := e'\<rparr>))
          else (Inr None, st))"

text \<open>
  \<open>coords.map(c => [c[1], c[0]])\<close>, which throws on an element that is \<open>null\<close>; and
  the points of a line: those of \<open>coords\<close> mapped in this way, or, when \<open>coords\<close> is
  \<open>null\<close>, the two points \<open>[a.lat, a.lng]\<close> and \<open>[b.lat, b.lng]\<close>.
\<close>

definition swapPoints :: "elem list \<Rightarrow> error + (jsval \<times> jsval) list" where
  "swapPoints coords =
     (if ENull \<in> set coords then Inl TypeError else Inr (map (\<lambda>c. (at1 c, at0 c)) coords))"

definition lineOf :: "elem list option \<Rightarrow> point \<Rightarrow> point \<Rightarrow> error + (jsval \<times> jsval) list" where
  "lineOf coords a b =
     (case coords of
        Some cs \<Rightarrow> swapPoints cs
      | None \<Rightarrow> Inr [(lat a, lng a), (lat b, lng b)])"

text \<open>
  \<open>latlngs.forEach(ll => bounds.push(ll))\<close>, then \<open>L.polyline(...).addTo(__routeLayer)\<close>:
  when the widget throws, the points are in \<open>bounds\<close> and no line is on the layer.
\<close>

definition drawLine :: "world \<Rightarrow> polyline \<Rightarrow> bstate \<Rightarrow> error option \<times> bstate" where
  "drawLine w pl st =
     (let st1 = st\<lparr>bounds := bounds st @ latlngs pl\<rparr> in
      if draws w (latlngs pl) then (None, st1\<lparr>layer := layer st1 @ [pl]\<rparr>)
      else (Some DrawError, st1))"

definition segmentLine :: "segment \<Rightarrow> bool \<Rightarrow> (jsval \<times> jsval) list \<Rightarrow> polyline" where
  "segmentLine seg routed lls =
     \<lparr>latlngs = lls, color = riskColor (risk seg), weight = 6, opacity = 0.9,
      dashArray = (if routed then None else Some ''10 10'')\<rparr>"

text \<open>\<open>km > 180\<close>; a comparison with \<open>NaN\<close> is false.\<close>

definition unrealisticJump :: "point \<Rightarrow> point \<Rightarrow> bool" where
  "unrealisticJump a b = (case haversineKm a b of Num km \<Rightarrow> km > 180 | _ \<Rightarrow> False)"

text \<open>
  The body of the \<open>try\<close> for segment \<open>i\<close>: the state it leaves, and the error it threw if
  it threw one.  With a stored geometry the points are mapped first, then the anchor
  moves to the last point if that is in the envelope, then the line is drawn.
  Otherwise FROM and TO are resolved and checked, the anchor moves to TO, and only then
  is the route requested and the line drawn.
\<close>

definition segmentTry ::
  "world \<Rightarrow> route \<Rightarrow> segment list \<Rightarrow> nat \<Rightarrow> segment \<Rightarrow> bstate \<Rightarrow> error option \<times> bstate" where
  "segmentTry w r segs i seg st =
     (case (case geometry seg of None \<Rightarrow> None
            | Some g \<Rightarrow> if length g \<ge> 2 then Some g else None) of
        Some coords \<Rightarrow>
          (case swapPoints coords of
             Inl err \<Rightarrow> (Some err, st)
           | Inr lls \<Rightarrow>
               (let x = VNumber (Number (at0 (last coords)));
                    y = VNumber (Number (at1 (last coords)));
                    st1 = (if inUkBounds y x
                           then st\<lparr>prev := Some \<lparr>lat = y, lng = x, displayName = None\<rparr>\<rparr>
                           else st)
                in drawLine w (segmentLine seg True lls) st1))
      | None \<Rightarrow>
          (let fromLabel = effectiveLabelForEndpoint r segs i From;
               toLabel0 = effectiveLabelForEndpoint r segs i To;
               toLabel = (if toLabel0 = [] then nextAnchorLabel r segs i else toLabel0)
           in case resolveFrom w seg fromLabel st of
                (Inl err, st1) \<Rightarrow> (Some err, st1)
              | (Inr None, st1) \<Rightarrow> (Some MissingGeocodeLabel, st1)
              | (Inr (Some a), st1) \<Rightarrow>
                  (case resolveTo w seg toLabel a st1 of
                     (Inl err, st2) \<Rightarrow> (Some err, st2)
                   | (Inr None, st2) \<Rightarrow> (Some (BadEndpoint (road seg)), st2)
                   | (Inr (Some b), st2) \<Rightarrow>
                       if \<not> inUkBounds (lat b) (lng b) then (Some (BadEndpoint (road seg)), st2)
                       else if unrealisticJump a b then (Some UnrealisticJump, st2)
                       else
                         (let st3 = st2\<lparr>prev := Some b\<rparr> in
                          case osrmRoute w a b (env st3) of
                            (Inl err, e') \<Rightarrow> (Some err, st3\<lparr>env := e'\<rparr>)
                          | (Inr coords, e') \<Rightarrow>
                              (case lineOf coords a b of
                                 Inl err \<Rightarrow> (Some err, st3\<lparr>env := e'\<rparr>)
                               | Inr lls \<Rightarrow>
                                   drawLine w (segmentLine seg (coords \<noteq> None) lls)
                                     (st3\<lparr>env := e'\<rparr>))))))"

text \<open>One turn of the segment loop: the \<open>try\<close> and its \<open>catch\<close>.\<close>

definition segmentStep :: "world \<Rightarrow> route \<Rightarrow> segment list \<Rightarrow> nat \<Rightarrow> bstate \<Rightarrow> bstate" where
  "segmentStep w r segs i st =
     (case segmentTry w r segs i (segs ! i) st of
        (None, st') \<Rightarrow> st'
      | (Some err, st') \<Rightarrow> st'\<lparr>failedSegments := failedSegments st' + 1\<rparr>)"

function segLoop :: "world \<Rightarrow> route \<Rightarrow> segment list \<Rightarrow> nat \<Rightarrow> bstate \<Rightarrow> bstate" where
  "segLoop w r segs i st =
     (if i < length segs then segLoop w r segs (i + 1) (segmentStep w r segs i st) else st)"
  by pat_completeness auto
termination
  by (relation "measure (\<lambda>(w, r, segs, i, st). length segs - i)") auto

text \<open>The route's start and end anchors for the fallback line.\<close>

definition startAnchor :: "world \<Rightarrow> route \<Rightarrow> state \<Rightarrow> (error + point) \<times> state" where
  "startAnchor w r s =
     (case pinned (startCoords r) of
        Some p \<Rightarrow> (Inr p, s)
      | None \<Rightarrow> geocodePlace w (trim (orElse (startPostcode r) (startLabel r))) None s)"






declare segLoop.simps [simp del]

section \<open>Auxiliary notions and example data\<close>

text \<open>The shapes of the two captures of the road-token pattern.\<close>

definition digits13 :: "string \<Rightarrow> bool" where
  "digits13 ds = (ds \<noteq> [] \<and> length ds \<le> 3 \<and> list_all isDigit ds)"

definition roadHead :: "string \<Rightarrow> bool" where
  "roadHead w = (\<exists>c ds. w = c # ds \<and> isAM c \<and> digits13 ds)"

definition roadTail :: "string \<Rightarrow> bool" where
  "roadTail w = (digits13 w \<or> roadHead w)"





text \<open>
  An override as \<open>resolveOverride\<close> reads it, and whether that reading is finite and
  inside the envelope; a segment with the override of one endpoint taken away.
\<close>

definition converted :: "point \<Rightarrow> point" where
  "converted c =
     \<lparr>lat = VNumber (Number (lat c)), lng = VNumber (Number (lng c)),
      displayName = Some ''Override''\<rparr>"

definition usableOverride :: "point \<Rightarrow> bool" where
  "usableOverride c = inUkBounds (VNumber (Number (lat c))) (VNumber (Number (lng c)))"

fun withoutCoords :: "key \<Rightarrow> segment \<Rightarrow> segment" where
  "withoutCoords From seg = seg\<lparr>fromCoords := None\<rparr>"
| "withoutCoords To seg = seg\<lparr>toCoords := None\<rparr>"

text \<open>
  The errors of endpoint resolution and of the distance guard, as opposed to those
  thrown later in the body of the loop, by the routing cache key, by the mapping of a
  payload and by the map widget.
\<close>

fun resolutionFailure :: "error \<Rightarrow> bool" where
  "resolutionFailure TypeError = False"
| "resolutionFailure DrawError = False"
| "resolutionFailure _ = True"


text \<open>
  No service answers, storage works, the widget draws every line, and nothing is
  stored.
\<close>

definition offline :: world where
  "offline = \<lparr>photon = (\<lambda>n q. None), osrm = (\<lambda>n a b. None), storage = (\<lambda>n. True),
              draws = (\<lambda>l. True)\<rparr>"

definition emptyState :: state where
  "emptyState = \<lparr>geocodeStore = [], osrmStore = [], requests = [], ops = 0\<rparr>"

definition origin :: point where
  "origin = \<lparr>lat = num 0, lng = num 0, displayName = None\<rparr>"

definition pin :: point where
  "pin = \<lparr>lat = num 52.5, lng = num (- 0.9), displayName = None\<rparr>"

definition blankSegment :: segment where
  "blankSegment = \<lparr>road = [], segFrom = [], segTo = [], risk = ''L'', fromCoords = None,
                    toCoords = None, geometry = None, comment = []\<rparr>"

definition noiseSegment :: segment where
  "noiseSegment = blankSegment\<lparr>road := ''A17'', segFrom := ''Sleaford'',
                                segTo := ''At roundabout take 3rd exit onto a17''\<rparr>"

definition blankRoute :: route where
  "blankRoute = \<lparr>rid = ''r'', title = ''Route'', startLabel = [], startPostcode = [],
                  startCoords = None, endLabel = [], endPostcode = [], endCoords = None,
                  segments = []\<rparr>"

definition pinnedSegment :: segment where
  "pinnedSegment = noiseSegment\<lparr>toCoords := Some pin\<rparr>"

definition strayPinSegment :: segment where
  "strayPinSegment = blankSegment\<lparr>segTo := ''Nowhere'', toCoords := Some origin\<rparr>"

text \<open>An override whose longitude is \<open>null\<close>, which \<open>Number\<close> makes \<open>0\<close>.\<close>

definition nullLngPin :: point where
  "nullLngPin = \<lparr>lat = num 52.5, lng = nullV, displayName = None\<rparr>"

definition nullPinSegment :: segment where
  "nullPinSegment = blankSegment\<lparr>segTo := ''Nowhere'', toCoords := Some nullLngPin\<rparr>"

text \<open>A route pinned at both ends on the map, without start or end text.\<close>

definition pinnedRoute :: route where
  "pinnedRoute = blankRoute\<lparr>startCoords := Some pin, endCoords := Some pin\<rparr>"

text \<open>
  A hint and two candidates on the same meridian, ten degrees of latitude apart; a
  service that knows only the far candidate, one that knows both, and a cache that
  holds the far one.
\<close>

definition southPoint :: point where
  "southPoint = \<lparr>lat = num 50, lng = num 0, displayName = None\<rparr>"

definition northPoint :: point where
  "northPoint = \<lparr>lat = num 60, lng = num 0, displayName = None\<rparr>"

definition farFeature :: feature where
  "farFeature = \<lparr>flng = num 0, flat = num 60, fname = ''M6 north'', flabel = []\<rparr>"

definition nearFeature :: feature where
  "nearFeature = \<lparr>flng = num 0, flat = num 50, fname = ''M6 south'', flabel = []\<rparr>"

definition farNet :: world where
  "farNet = offline\<lparr>photon := (\<lambda>n q. Some [farFeature])\<rparr>"

definition mixedNet :: world where
  "mixedNet = offline\<lparr>photon := (\<lambda>n q. Some [farFeature, nearFeature])\<rparr>"

definition farCachedState :: state where
  "farCachedState =
     \<lparr>geocodeStore = [(''__v'', GNum 2), (''m6'', GPlace (placeOf farFeature ''M6''))],
      osrmStore = [], requests = [], ops = 0\<rparr>"

text \<open>
  A segment with a stored geometry, and a route of three segments of which the second
  cannot be resolved.
\<close>

definition yardPin :: point where
  "yardPin = \<lparr>lat = num 52.6, lng = num (- 1.1), displayName = None\<rparr>"

definition drawnSegment :: segment where
  "drawnSegment =
     blankSegment\<lparr>geometry := Some [EArr [num (- 0.9), num 52.5], EArr [num (- 0.8), num 52.6]]\<rparr>"


definition startState :: bstate where
  "startState = \<lparr>prev = None, failedSegments = 0, layer = [], bounds = [], env = emptyState\<rparr>"

text \<open>
  A chain whose anchor is in place; a segment pinned more than a thousand kilometres
  north of that anchor, one whose TO label no service knows, and one pinned a few
  kilometres north of the anchor; the routes that hold them.
\<close>

definition anchoredState :: bstate where
  "anchoredState = startState\<lparr>prev := Some southPoint\<rparr>"

definition farPinSegment :: segment where
  "farPinSegment = blankSegment\<lparr>road := ''A1'', toCoords := Some northPoint\<rparr>"

definition lostSegment :: segment where
  "lostSegment = blankSegment\<lparr>road := ''A46'', segTo := ''Nowhere''\<rparr>"

definition nearPoint :: point where
  "nearPoint = \<lparr>lat = num 50.1, lng = num 0, displayName = None\<rparr>"

definition nearPinSegment :: segment where
  "nearPinSegment = blankSegment\<lparr>road := ''A2'', toCoords := Some nearPoint\<rparr>"

definition jumpRoute :: route where
  "jumpRoute = blankRoute\<lparr>segments := [farPinSegment, drawnSegment]\<rparr>"

definition lostRoute :: route where
  "lostRoute = blankRoute\<lparr>segments := [lostSegment, drawnSegment]\<rparr>"

definition nearRoute :: route where
  "nearRoute = blankRoute\<lparr>segments := [nearPinSegment]\<rparr>"

text \<open>A service whose first place search fails and whose later ones find a place.\<close>

definition retryNet :: world where
  "retryNet = offline\<lparr>photon := (\<lambda>n q. if n = 0 then None else Some [nearFeature])\<rparr>"

text \<open>
  A world in which every place search succeeds and \<open>localStorage\<close> refuses its third
  operation, which is the write of the first lookup made from the empty state.
\<close>

definition refusingNet :: world where
  "refusingNet = offline\<lparr>photon := (\<lambda>n q. Some [nearFeature]), storage := (\<lambda>n. n \<noteq> 2)\<rparr>"

text \<open>
  A polyline lies entirely outside the box \<open>lat \<in> [45, 62]\<close>, \<open>lng \<in> [-12, 5]\<close> when all
  its points are south, north, west or east of it.
\<close>

definition entirelyOutside :: "(real \<times> real) list \<Rightarrow> bool" where
  "entirelyOutside coords =
     (list_all (\<lambda>(x, y). y < 45) coords \<or> list_all (\<lambda>(x, y). y > 62) coords
      \<or> list_all (\<lambda>(x, y). x < - 12) coords \<or> list_all (\<lambda>(x, y). x > 5) coords)"

text \<open>What the routing request made now returns to the caller.\<close>

definition refetched :: "world \<Rightarrow> point \<Rightarrow> point \<Rightarrow> state \<Rightarrow> elem list option" where
  "refetched w a b s =
     (case osrm w (length (requests s)) a b of
        None \<Rightarrow> None
      | Some coords \<Rightarrow> if length coords < 2 then None else Some coords)"

text \<open>
  The key of the pair of pins.  A routing cache that holds for it a polyline far outside
  the box, and one that holds an array of two elements that are not arrays; a service
  that routes, and one whose payload is an array of two \<open>null\<close>s.
\<close>

definition pinKey :: okey where
  "pinKey = ((Fixed True 900000, Fixed False 52500000), (Fixed True 1100000, Fixed False 52600000))"

definition strayPolyline :: "elem list" where
  "strayPolyline = [EArr [num 10, num 10], EArr [num 11, num 11]]"

definition strayRouteState :: state where
  "strayRouteState = emptyState\<lparr>osrmStore := [(pinKey, SArr strayPolyline)]\<rparr>"

definition brokenRouteState :: state where
  "brokenRouteState =
     emptyState\<lparr>osrmStore := [(pinKey, SArr [EOther undefinedV undefinedV, ENull])]\<rparr>"

definition routedPolyline :: "elem list" where
  "routedPolyline =
     [EArr [num (- 0.9), num 52.5], EArr [num (- 1), num 52.55], EArr [num (- 1.1), num 52.6]]"

definition routedNet :: world where
  "routedNet = offline\<lparr>osrm := (\<lambda>n a b. Some routedPolyline)\<rparr>"

definition nullNet :: world where
  "nullNet = offline\<lparr>osrm := (\<lambda>n a b. Some [ENull, ENull])\<rparr>"

section \<open>The matcher\<close>

lemma in_rmatch_Chr:
  "(p', s', g') \<in> set (rmatch (Chr P) (p, s, g)) \<longleftrightarrow>
     (\<exists>c. s = c # s' \<and> P c \<and> p' = Some c \<and> g' = g)"
  by (cases s) auto

lemma in_rmatch_Rep:
  "(p', s', g') \<in> set (rmatch (Rep P lo hi) (p, s, g)) \<longleftrightarrow>
     (\<exists>j. lo \<le> j \<and> j \<le> length (takeWhile P s)
          \<and> (case hi of None \<Rightarrow> True | Some h \<Rightarrow> j \<le> h)
          \<and> p' = lastOr p (take j s) \<and> s' = drop j s \<and> g' = g)"
proof -
  have range: "\<And>m. set (rev [lo ..< Suc m]) = {j. lo \<le> j \<and> j \<le> m}"
    by auto
  show ?thesis
  proof (cases hi)
    case None
    then show ?thesis
      by (simp add: Let_def range image_iff del: upt_Suc set_rev)
  next
    case (Some h)
    then show ?thesis
      by (simp add: Let_def range image_iff del: upt_Suc set_rev)
  qed
qed

lemma take_takeWhile_all:
  assumes "j \<le> length (takeWhile P s)"
  shows "list_all P (take j s)"
proof -
  have "take j s = take j (takeWhile P s)"
    using assms by (metis takeWhile_dropWhile_id take_append diff_is_0_eq' take_0 append_Nil2)
  moreover have "list_all P (takeWhile P s)"
    by (simp add: list_all_iff) (meson set_takeWhileD)
  ultimately show ?thesis
    by (metis list_all_iff in_set_takeD)
qed

text \<open>A repetition consumes a word of the class, of a length within its bounds.\<close>

lemma rmatch_Rep_consumed:
  assumes "(p', s', g') \<in> set (rmatch (Rep P lo hi) (p, s, g))"
  shows "\<exists>w. s = w @ s' \<and> list_all P w \<and> lo \<le> length w
            \<and> (case hi of None \<Rightarrow> True | Some h \<Rightarrow> length w \<le> h) \<and> g' = g"
proof -
  from assms obtain j where j: "lo \<le> j" "j \<le> length (takeWhile P s)"
      "(case hi of None \<Rightarrow> True | Some h \<Rightarrow> j \<le> h)" "s' = drop j s" "g' = g"
    unfolding in_rmatch_Rep by blast
  have jl: "j \<le> length s"
    using j(2) length_takeWhile_le[of P s] by linarith
  have "s = take j s @ s'" using j(4) by simp
  moreover have "list_all P (take j s)" using j(2) by (rule take_takeWhile_all)
  moreover have "length (take j s) = j" using jl by simp
  ultimately show ?thesis
    using j by (intro exI[of _ "take j s"]) (auto split: option.splits)
qed

lemma rmatch_Rep_intro:
  assumes "list_all P w" "lo \<le> length w" "case hi of None \<Rightarrow> True | Some h \<Rightarrow> length w \<le> h"
  shows "(lastOr p w, s', g) \<in> set (rmatch (Rep P lo hi) (p, w @ s', g))"
proof -
  have "takeWhile P (w @ s') = w @ takeWhile P s'"
    using assms(1) by (simp add: list_all_iff takeWhile_append2)
  then have "length w \<le> length (takeWhile P (w @ s'))" by simp
  then show ?thesis
    unfolding in_rmatch_Rep using assms(2,3) by (intro exI[of _ "length w"]) simp
qed

lemma RepI0: "(p, s, g) \<in> set (rmatch (Rep P 0 hi) (p, s, g))"
  using rmatch_Rep_intro[of P "[]" 0 hi p s g] by (simp split: option.splits)

lemma in_rmatch_Grp:
  "(p', s', g') \<in> set (rmatch (Grp n a) (p, s, g)) \<longleftrightarrow>
     (\<exists>g0. (p', s', g0) \<in> set (rmatch a (p, s, g))
          \<and> g' = (n, take (length s - length s') s) # g0)"
  by (force simp: image_iff)

lemma in_rmatch_Seq:
  "m \<in> set (rmatch (Seq a b) st) \<longleftrightarrow> (\<exists>mid \<in> set (rmatch a st). m \<in> set (rmatch b mid))"
  by simp

lemma SeqI:
  "mid \<in> set (rmatch a st) \<Longrightarrow> m \<in> set (rmatch b mid) \<Longrightarrow> m \<in> set (rmatch (Seq a b) st)"
  by auto

lemma in_rmatch_Opt:
  "m \<in> set (rmatch (Opt a) st) \<longleftrightarrow> (m \<in> set (rmatch a st) \<or> m = st)"
  by auto

lemma in_rmatch_WordB:
  "m \<in> set (rmatch WordB (p, s, g)) \<Longrightarrow> m = (p, s, g)"
  by (auto split: if_splits)

lemma rsearch_Some:
  "rsearch r p s = Some m \<Longrightarrow> \<exists>p' s'. m \<in> set (rmatch r (p', s', []))"
proof (induction s arbitrary: p)
  case Nil
  then show ?case by (auto split: list.splits) (metis list.set_intros(1))
next
  case (Cons c cs)
  show ?case
  proof (cases "rmatch r (p, c # cs, [])")
    case Nil
    then show ?thesis using Cons by simp
  next
    case (Cons m' ms)
    then have "m = m'" using Cons.prems by simp
    then show ?thesis using Cons by (metis list.set_intros(1))
  qed
qed

lemma rsearch_hit: "rmatch r (p, s, []) \<noteq> [] \<Longrightarrow> rsearch r p s \<noteq> None"
  by (cases s; cases "rmatch r (p, s, [])") auto

section \<open>Road tokens\<close>

lemma road_group_consumed:
  assumes "(p', s', g') \<in> set (rmatch (seqs [Chr isAM, Rep isDigit 1 (Some 3)]) (p, s, g))"
  shows "g' = g \<and> (\<exists>w. s = w @ s' \<and> roadHead w)"
proof -
  from assms obtain c m1 where c: "isAM c" and m1: "m1 = (Some c, tl s, g)" and s: "s = c # tl s"
      and r: "(p', s', g') \<in> set (rmatch (Rep isDigit 1 (Some 3)) m1)"
    by (auto simp: seqs_def in_rmatch_Chr)
  from rmatch_Rep_consumed[OF r[unfolded m1]] obtain w where
    w: "tl s = w @ s'" "list_all isDigit w" "1 \<le> length w" "length w \<le> 3" "g' = g"
    by auto
  have "s = (c # w) @ s'" using s w(1) by (metis append_Cons)
  moreover have "roadHead (c # w)" using c w by (auto simp: roadHead_def digits13_def)
  ultimately show ?thesis using w(5) by blast
qed

lemma second_group_consumed:
  assumes "(p', s', g') \<in> set (rmatch (seqs [Rep isAM 0 (Some 1), Rep isDigit 1 (Some 3)]) (p, s, g))"
  shows "g' = g \<and> (\<exists>w. s = w @ s' \<and> roadTail w)"
proof -
  from assms obtain p1 s1 g1 where
      a: "(p1, s1, g1) \<in> set (rmatch (Rep isAM 0 (Some 1)) (p, s, g))"
      and r: "(p', s', g') \<in> set (rmatch (Rep isDigit 1 (Some 3)) (p1, s1, g1))"
    by (auto simp: seqs_def)
  from rmatch_Rep_consumed[OF a] obtain l where
    l: "s = l @ s1" "list_all isAM l" "length l \<le> 1" "g1 = g"
    by auto
  from rmatch_Rep_consumed[OF r] obtain w where
    w: "s1 = w @ s'" "list_all isDigit w" "1 \<le> length w" "length w \<le> 3" "g' = g1"
    by auto
  have d: "digits13 w" using w by (auto simp: digits13_def)
  have "roadTail (l @ w)"
  proof (cases l)
    case Nil
    then show ?thesis using d by (simp add: roadTail_def)
  next
    case (Cons c cs)
    then have "cs = []" using l(3) by simp
    then show ?thesis using Cons l(2) d by (auto simp: roadTail_def roadHead_def)
  qed
  moreover have "s = (l @ w) @ s'" using l(1) w(1) by simp
  ultimately show ?thesis using l(4) w(5) by blast
qed

text \<open>Every match of the road-token pattern captures a road head and, at most, a road tail.\<close>

lemma roadTokenRe_captures:
  assumes "m \<in> set (rmatch roadTokenRe (p, s, []))"
  shows "\<exists>w1. roadHead w1 \<and> capture 1 m = Some w1
            \<and> (capture 2 m = None \<or> (\<exists>w2. roadTail w2 \<and> capture 2 m = Some w2))"
proof -
  let ?G1 = "seqs [Chr isAM, Rep isDigit 1 (Some 3)]"
  let ?G2 = "seqs [Rep isAM 0 (Some 1), Rep isDigit 1 (Some 3)]"
  let ?X = "seqs [Rep isSpace 0 None, lit CHR ''/'', Rep isSpace 0 None, Grp 2 ?G2]"
  have re: "roadTokenRe = Seq WordB (Seq (Grp 1 ?G1) (Seq (Opt ?X) (Seq WordB Eps)))"
    by (simp add: roadTokenRe_def seqs_def)
  from assms obtain m0 m1 m2 where
      m0: "m0 \<in> set (rmatch WordB (p, s, []))"
      and m1: "m1 \<in> set (rmatch (Grp 1 ?G1) m0)"
      and m2: "m2 \<in> set (rmatch (Opt ?X) m1)"
      and m3: "m \<in> set (rmatch (Seq WordB Eps) m2)"
    unfolding re in_rmatch_Seq by blast
  have m0': "m0 = (p, s, [])" using m0 by (rule in_rmatch_WordB)
  obtain p1 s1 g1 where m1': "m1 = (p1, s1, g1)" by (cases m1)
  from m1 obtain g0 where g0: "(p1, s1, g0) \<in> set (rmatch ?G1 (p, s, []))"
      and g1: "g1 = (1, take (length s - length s1) s) # g0"
    unfolding m0' m1' in_rmatch_Grp by blast
  from road_group_consumed[OF g0] obtain w1 where w1: "g0 = []" "s = w1 @ s1" "roadHead w1"
    by blast
  have g1': "g1 = [(1, w1)]" using g1 w1 by simp
  obtain p2 s2 g2 where m2': "m2 = (p2, s2, g2)" by (cases m2)
  have mm: "m = m2"
  proof -
    from m3 obtain x where "x \<in> set (rmatch WordB m2)" "m \<in> set (rmatch Eps x)"
      unfolding in_rmatch_Seq by blast
    then show ?thesis using in_rmatch_WordB[of x p2 s2 g2] by (simp add: m2')
  qed
  have "g2 = [(1, w1)] \<or> (\<exists>w2. roadTail w2 \<and> g2 = [(2, w2), (1, w1)])"
  proof -
    from m2 have "m2 = m1 \<or> m2 \<in> set (rmatch ?X m1)" unfolding in_rmatch_Opt by blast
    then show ?thesis
    proof
      assume "m2 = m1"
      then show ?thesis using m1' m2' g1' by simp
    next
      assume "m2 \<in> set (rmatch ?X m1)"
      then obtain a b c where
          a: "a \<in> set (rmatch (Rep isSpace 0 None) m1)"
          and b: "b \<in> set (rmatch (lit CHR ''/'') a)"
          and c: "c \<in> set (rmatch (Rep isSpace 0 None) b)"
          and d: "m2 \<in> set (rmatch (Grp 2 ?G2) c)"
        by (auto simp: seqs_def)
      obtain pa sa ga where a': "a = (pa, sa, ga)" by (cases a)
      obtain pb sb gb where b': "b = (pb, sb, gb)" by (cases b)
      obtain pc sc gc where c': "c = (pc, sc, gc)" by (cases c)
      have ga: "ga = g1" using rmatch_Rep_consumed[OF a[unfolded a' m1']] by blast
      have gb: "gb = ga" using b unfolding a' b' lit_def in_rmatch_Chr by simp
      have gc: "gc = gb" using rmatch_Rep_consumed[OF c[unfolded b' c']] by blast
      from d obtain g0' where e: "(p2, s2, g0') \<in> set (rmatch ?G2 (pc, sc, gc))"
          and g2: "g2 = (2, take (length sc - length s2) sc) # g0'"
        unfolding c' m2' in_rmatch_Grp by blast
      from second_group_consumed[OF e] obtain w2 where
        w2: "g0' = gc" "sc = w2 @ s2" "roadTail w2" by blast
      have "g2 = [(2, w2), (1, w1)]" using g2 w2 gc gb ga g1' by simp
      then show ?thesis using w2(3) by blast
    qed
  qed
  then show ?thesis using w1(3) unfolding mm m2' capture_def by auto
qed

lemma upperChar_digit: "isDigit d \<Longrightarrow> upperChar d = d"
  by (simp add: upperChar_def isDigit_def isLowerAZ_def)

lemma upperChar_AM: "isAM c \<Longrightarrow> isAM (upperChar c)"
proof -
  have "upperChar CHR ''a'' = CHR ''A''" "upperChar CHR ''m'' = CHR ''M''"
       "upperChar CHR ''A'' = CHR ''A''" "upperChar CHR ''M'' = CHR ''M''"
    by code_simp+
  then show "isAM c \<Longrightarrow> isAM (upperChar c)" by (auto simp: isAM_def)
qed

lemma AM_not_space: "isAM c \<Longrightarrow> \<not> isSpace c"
  by (auto simp: isAM_def isSpace_def code_def)

lemma digit_not_space: "isDigit c \<Longrightarrow> \<not> isSpace c"
  by (auto simp: isDigit_def isSpace_def)

lemma toUpperCase_digits: "list_all isDigit ds \<Longrightarrow> toUpperCase ds = ds"
  by (induction ds) (auto simp: toUpperCase_def upperChar_digit)

lemma toUpperCase_roadHead: "roadHead w \<Longrightarrow> roadHead (toUpperCase w)"
  using toUpperCase_digits
  by (fastforce simp: roadHead_def digits13_def toUpperCase_def intro: upperChar_AM)

lemma toUpperCase_roadTail: "roadTail w \<Longrightarrow> roadTail (toUpperCase w)"
  using toUpperCase_roadHead toUpperCase_digits by (auto simp: roadTail_def digits13_def)

lemma trim_id:
  assumes "s \<noteq> []" "\<not> isSpace (hd s)" "\<not> isSpace (last s)"
  shows "trim s = s"
proof -
  have 1: "dropWhile isSpace s = s" using assms(2) by (simp add: dropWhile_eq_self_iff)
  have "hd (rev s) = last s" using assms(1) by (simp add: hd_rev)
  then have 2: "dropWhile isSpace (rev s) = rev s"
    using assms(3) by (simp add: dropWhile_eq_self_iff)
  show ?thesis by (simp add: trim_def 1 2)
qed

lemma rmatch_digits_intro:
  "digits13 ds \<Longrightarrow> (lastOr p ds, s', g) \<in> set (rmatch (Rep isDigit 1 (Some 3)) (p, ds @ s', g))"
  by (rule rmatch_Rep_intro) (auto simp: digits13_def Suc_le_eq)

lemma roadTail_intro:
  assumes "roadTail t"
  shows "\<exists>p'. (p', [], g) \<in> set (rmatch (seqs [Rep isAM 0 (Some 1), Rep isDigit 1 (Some 3)]) (p, t, g))"
proof -
  from assms obtain l ds where t: "t = l @ ds" "list_all isAM l" "length l \<le> 1" "digits13 ds"
    unfolding roadTail_def roadHead_def
  proof (elim disjE exE conjE, goal_cases)
    case 1
    show ?case using 1(1)[of "[]" t] 1(2-) by simp
  next
    case (2 c ds)
    show ?case using 2(1)[of "[c]" ds] 2(2-) by simp
  qed
  have a: "(lastOr p l, ds, g) \<in> set (rmatch (Rep isAM 0 (Some 1)) (p, t, g))"
    unfolding t(1) by (rule rmatch_Rep_intro) (use t in auto)
  have b: "(lastOr (lastOr p l) ds, [], g)
             \<in> set (rmatch (Rep isDigit 1 (Some 3)) (lastOr p l, ds, g))"
    using rmatch_digits_intro[OF t(4), of "lastOr p l" "[]" g] by simp
  have "(lastOr (lastOr p l) ds, [], g)
          \<in> set (rmatch (seqs [Rep isAM 0 (Some 1), Rep isDigit 1 (Some 3)]) (p, t, g))"
    unfolding seqs_def foldr.simps o_apply
    by (rule SeqI[OF a], rule SeqI[OF b]) simp
  then show ?thesis by blast
qed

lemma roadOnlyRe_head:
  assumes "roadHead w"
  shows "rmatch roadOnlyRe (None, w, []) \<noteq> []"
proof -
  from assms obtain c ds where w: "w = c # ds" "isAM c" "digits13 ds"
    by (auto simp: roadHead_def)
  define p1 where "p1 = lastOr (Some c) ds"
  let ?T = "seqs [Rep isAM 0 (Some 1), Rep isDigit 1 (Some 3)]"
  let ?X = "Opt (Seq (Rep isSpace 0 None) (Seq (lit CHR ''/'') (Seq (Rep isSpace 0 None) ?T)))"
  have re: "roadOnlyRe = Seq Bos (Seq (Chr isAM) (Seq (Rep isDigit 1 (Some 3)) (Seq ?X (Seq Eos Eps))))"
    by (simp add: roadOnlyRe_def seqs_def)
  have s0: "(None, w, []) \<in> set (rmatch Bos (None, w, []))" by simp
  have s1: "(Some c, ds, []) \<in> set (rmatch (Chr isAM) (None, w, []))"
    unfolding w(1) using w(2) by simp
  have s2: "(p1, [], []) \<in> set (rmatch (Rep isDigit 1 (Some 3)) (Some c, ds, []))"
    unfolding p1_def using rmatch_digits_intro[OF w(3), of "Some c" "[]" "[]"] by simp
  have s3: "(p1, [], []) \<in> set (rmatch ?X (p1, [], []))"
    unfolding in_rmatch_Opt by simp
  have s4: "(p1, [], []) \<in> set (rmatch (Seq Eos Eps) (p1, [], []))" by simp
  have "(p1, [], []) \<in> set (rmatch roadOnlyRe (None, w, []))"
    unfolding re
    by (rule SeqI[OF s0], rule SeqI[OF s1], rule SeqI[OF s2], rule SeqI[OF s3], rule s4)
  then show ?thesis by auto
qed

lemma roadOnlyRe_pair:
  assumes "roadHead w" "roadTail t"
  shows "rmatch roadOnlyRe (None, w @ CHR ''/'' # t, []) \<noteq> []"
proof -
  from assms obtain c ds where w: "w = c # ds" "isAM c" "digits13 ds"
    by (auto simp: roadHead_def)
  let ?T = "seqs [Rep isAM 0 (Some 1), Rep isDigit 1 (Some 3)]"
  let ?X = "Opt (Seq (Rep isSpace 0 None) (Seq (lit CHR ''/'') (Seq (Rep isSpace 0 None) ?T)))"
  define p1 where "p1 = lastOr (Some c) ds"
  from roadTail_intro[OF assms(2), of "[]" "Some CHR ''/''"] obtain pe where
    e: "(pe, [], []) \<in> set (rmatch ?T (Some CHR ''/'', t, []))" by blast
  have re: "roadOnlyRe = Seq Bos (Seq (Chr isAM) (Seq (Rep isDigit 1 (Some 3)) (Seq ?X (Seq Eos Eps))))"
    by (simp add: roadOnlyRe_def seqs_def)
  have s0: "(None, w @ CHR ''/'' # t, []) \<in> set (rmatch Bos (None, w @ CHR ''/'' # t, []))"
    by simp
  have s1: "(Some c, ds @ CHR ''/'' # t, []) \<in> set (rmatch (Chr isAM) (None, w @ CHR ''/'' # t, []))"
    unfolding w(1) using w(2) by simp
  have s2: "(p1, CHR ''/'' # t, [])
              \<in> set (rmatch (Rep isDigit 1 (Some 3)) (Some c, ds @ CHR ''/'' # t, []))"
    unfolding p1_def by (rule rmatch_digits_intro[OF w(3)])
  have x1: "(p1, CHR ''/'' # t, []) \<in> set (rmatch (Rep isSpace 0 None) (p1, CHR ''/'' # t, []))"
    by (rule RepI0)
  have x2: "(Some CHR ''/'', t, []) \<in> set (rmatch (lit CHR ''/'') (p1, CHR ''/'' # t, []))"
    by (simp add: lit_def)
  have x3: "(Some CHR ''/'', t, []) \<in> set (rmatch (Rep isSpace 0 None) (Some CHR ''/'', t, []))"
    by (rule RepI0)
  have x: "(pe, [], []) \<in> set (rmatch ?X (p1, CHR ''/'' # t, []))"
    unfolding in_rmatch_Opt
    by (rule disjI1, rule SeqI[OF x1], rule SeqI[OF x2], rule SeqI[OF x3], rule e)
  have s4: "(pe, [], []) \<in> set (rmatch (Seq Eos Eps) (pe, [], []))"
    by simp
  have "(pe, [], []) \<in> set (rmatch roadOnlyRe (None, w @ CHR ''/'' # t, []))"
    unfolding re
    by (rule SeqI[OF s0], rule SeqI[OF s1], rule SeqI[OF s2], rule SeqI[OF x], rule s4)
  then show ?thesis by auto
qed

lemma roadHead_ends: "roadHead w \<Longrightarrow> w \<noteq> [] \<and> \<not> isSpace (hd w) \<and> \<not> isSpace (last w)"
  by (auto simp: roadHead_def digits13_def AM_not_space digit_not_space list_all_iff)

lemma roadTail_ends: "roadTail w \<Longrightarrow> w \<noteq> [] \<and> \<not> isSpace (last w)"
  using roadHead_ends by (auto simp: roadTail_def digits13_def digit_not_space list_all_iff)

lemma isRoadOnlyLabel_head: "roadHead w \<Longrightarrow> isRoadOnlyLabel w"
  using roadHead_ends[of w] roadOnlyRe_head[of w]
  by (simp add: isRoadOnlyLabel_def trim_id rtest_def rsearch_hit)

lemma isRoadOnlyLabel_pair:
  assumes "roadHead w" "roadTail t"
  shows "isRoadOnlyLabel (w @ ''/'' @ t)"
proof -
  have ne: "w @ ''/'' @ t \<noteq> []" by simp
  have h: "\<not> isSpace (hd (w @ ''/'' @ t))" using roadHead_ends[OF assms(1)] by simp
  have l: "\<not> isSpace (last (w @ ''/'' @ t))" using roadTail_ends[OF assms(2)] by simp
  have "trim (w @ ''/'' @ t) = w @ ''/'' @ t" by (rule trim_id[OF ne h l])
  then show ?thesis
    using roadOnlyRe_pair[OF assms] ne
    by (simp add: isRoadOnlyLabel_def rtest_def rsearch_hit)
qed

lemma extractRoadToken_road_only:
  assumes "extractRoadToken v \<noteq> []"
  shows "isRoadOnlyLabel (extractRoadToken v)"
proof -
  from assms obtain m where m: "rsearch roadTokenRe None v = Some m"
    by (auto simp: extractRoadToken_def split: option.splits)
  from rsearch_Some[OF m] obtain p' s' where "m \<in> set (rmatch roadTokenRe (p', s', []))"
    by blast
  from roadTokenRe_captures[OF this] obtain w1 where
    w1: "roadHead w1" "capture 1 m = Some w1"
        "capture 2 m = None \<or> (\<exists>w2. roadTail w2 \<and> capture 2 m = Some w2)"
    by blast
  from w1(3) show ?thesis
  proof
    assume "capture 2 m = None"
    then have "extractRoadToken v = toUpperCase w1"
      using w1(2) by (simp add: extractRoadToken_def m)
    then show ?thesis
      using isRoadOnlyLabel_head[OF toUpperCase_roadHead[OF w1(1)]] by simp
  next
    assume "\<exists>w2. roadTail w2 \<and> capture 2 m = Some w2"
    then obtain w2 where w2: "roadTail w2" "capture 2 m = Some w2" by blast
    have "w2 \<noteq> []" using roadTail_ends[OF w2(1)] by simp
    then have "extractRoadToken v = toUpperCase w1 @ ''/'' @ toUpperCase w2"
      using w1(2) w2(2) by (simp add: extractRoadToken_def m)
    then show ?thesis
      using isRoadOnlyLabel_pair[OF toUpperCase_roadHead[OF w1(1)] toUpperCase_roadTail[OF w2(1)]]
      by simp
  qed
qed

text \<open>
  C10.  Whenever \<open>extractRoadToken\<close> returns a non-empty token, that token is a
  road-only label; and where \<open>effectiveLabelForEndpoint\<close> meets an instruction-like
  label that is not road-only and holds a road token, it returns exactly that token,
  hence a road-only label.
\<close>

theorem road_token_is_road_only_label:
  assumes "extractRoadToken v \<noteq> []"
  shows "isRoadOnlyLabel (extractRoadToken v)
       \<and> (rawLabel segs i k = v \<and> \<not> isRoadOnlyLabel v \<and> isInstructionLikeLabel v \<longrightarrow>
            effectiveLabelForEndpoint r segs i k = extractRoadToken v)"
  using extractRoadToken_road_only[OF assms] assms
  by (simp add: effectiveLabelForEndpoint_def Let_def)

theorem road_token_is_road_only_label_witness:
  "isRoadOnlyLabel (extractRoadToken ''At roundabout take 3rd exit onto a17'')
   \<and> effectiveLabelForEndpoint blankRoute [noiseSegment] 0 To = ''A17''"
proof -
  let ?v = "''At roundabout take 3rd exit onto a17''"
  have h: "extractRoadToken ?v \<noteq> []" by code_simp
  have t: "extractRoadToken ?v = ''A17''" by code_simp
  have raw: "rawLabel [noiseSegment] 0 To = ?v" by code_simp
  have c: "\<not> isRoadOnlyLabel ?v" "isInstructionLikeLabel ?v" by code_simp+
  show ?thesis
    using road_token_is_road_only_label[OF h, of "[noiseSegment]" 0 To blankRoute] raw c t
    by simp
qed

section \<open>The envelope\<close>

lemmas bounds_defs = UK_minLat_def UK_maxLat_def UK_minLng_def UK_maxLng_def

lemma inUkBounds_numbers:
  "inUkBounds y x \<Longrightarrow> VNumber (Number y) = y \<and> VNumber (Number x) = x"
  by (cases "(y, x)" rule: inUkBounds.cases) simp_all

lemma cachedPlace_inBounds: "cachedPlace v = Some c \<Longrightarrow> inUkBounds (lat c) (lng c)"
  by (cases v rule: cachedPlace.cases) (auto split: if_splits)

lemma cacheHit_inBounds: "cacheHit fc k = Some c \<Longrightarrow> inUkBounds (lat c) (lng c)"
  by (auto simp: cacheHit_def split: if_splits dest: cachedPlace_inBounds)

lemma geocodePlace_inBounds:
  "geocodePlace w lbl hint s = (Inr p, s') \<Longrightarrow> inUkBounds (lat p) (lng p)"
  unfolding geocodePlace_def Let_def
  by (auto split: if_splits option.splits prod.splits dest: cacheHit_inBounds)

lemma resolveOverride_inBounds: "resolveOverride c = Some p \<Longrightarrow> inUkBounds (lat p) (lng p)"
  by (auto simp: resolveOverride_def Let_def split: if_splits)


lemma resolveEndpoint_result:
  assumes "resolveEndpoint w seg k hint lo s = (Inr p, s')"
  shows "inUkBounds (lat p) (lng p)
       \<or> (usableHint hint = Some p \<and> resolveOverride (coordsOf k seg) = None
          \<and> trim (case lo of Some l \<Rightarrow> l | None \<Rightarrow> label k seg) = [])"
  using assms unfolding resolveEndpoint_def Let_def
  by (auto split: option.splits if_splits dest: resolveOverride_inBounds geocodePlace_inBounds)

lemma usableHint_Some: "usableHint hint = Some p \<Longrightarrow> hint = Some p"
  by (auto simp: usableHint_def split: option.splits if_splits)

text \<open>
  C1, as amended.  Every coordinate that \<open>geocodePlace\<close> returns satisfies the
  envelope.  Every coordinate that \<open>resolveEndpoint\<close> returns satisfies the envelope,
  or else it is the caller's own hint, handed back unchanged because there is no valid
  override and the label is empty; so it satisfies the envelope whenever the hint
  does.
\<close>

theorem returned_coordinates_in_envelope:
  "(geocodePlace nw lbl hint s = (Inr p, s') \<longrightarrow> inUkBounds (lat p) (lng p))
   \<and> (resolveEndpoint nw seg k hint lo s = (Inr q, s'') \<longrightarrow>
        (inUkBounds (lat q) (lng q)
         \<or> (usableHint hint = Some q \<and> resolveOverride (coordsOf k seg) = None
            \<and> trim (case lo of Some l \<Rightarrow> l | None \<Rightarrow> label k seg) = []))
        \<and> ((\<forall>h. hint = Some h \<longrightarrow> inUkBounds (lat h) (lng h)) \<longrightarrow> inUkBounds (lat q) (lng q)))"
  using geocodePlace_inBounds[of nw lbl hint s p s']
        resolveEndpoint_result[of nw seg k hint lo s q s''] usableHint_Some[of hint q]
  by blast

lemma world_fields:
  "storage offline = (\<lambda>n. True)" "photon offline = (\<lambda>n q. None)"
  "osrm offline = (\<lambda>n a b. None)" "draws offline = (\<lambda>l. True)"
  "storage farNet = (\<lambda>n. True)" "photon farNet = (\<lambda>n q. Some [farFeature])"
  "storage mixedNet = (\<lambda>n. True)" "photon mixedNet = (\<lambda>n q. Some [farFeature, nearFeature])"
  "storage retryNet = (\<lambda>n. True)"
  "photon retryNet = (\<lambda>n q. if n = 0 then None else Some [nearFeature])"
  "storage routedNet = (\<lambda>n. True)" "osrm routedNet = (\<lambda>n a b. Some routedPolyline)"
  "draws routedNet = (\<lambda>l. True)"
  "storage nullNet = (\<lambda>n. True)" "osrm nullNet = (\<lambda>n a b. Some [ENull, ENull])"
  "draws nullNet = (\<lambda>l. True)"
  "storage refusingNet = (\<lambda>n. n \<noteq> 2)" "photon refusingNet = (\<lambda>n q. Some [nearFeature])"
  by (simp_all add: offline_def farNet_def mixedNet_def retryNet_def routedNet_def nullNet_def
        refusingNet_def)

lemmas storage_defs = readGeocode_def writeGeocode_def readOsrm_def writeOsrm_def

lemma pinned_override:
  "resolveEndpoint offline pinnedSegment To None None emptyState
     = (Inr (pin\<lparr>displayName := Some ''Override''\<rparr>), emptyState)"
  by (simp add: resolveEndpoint_def resolveOverride_def pinnedSegment_def pin_def bounds_defs)

lemma key_m6: "cacheKey ''M6'' = ''m6''"
  by code_simp

lemma far_cached_hit:
  "geocodePlace farNet ''M6'' (Some southPoint) farCachedState
     = (Inr (placeOf farFeature ''M6''), farCachedState\<lparr>ops := 1\<rparr>)"
  by (simp add: geocodePlace_def Let_def key_m6 farCachedState_def currentVersion_def
        GEOCODE_CACHE_VERSION_def freshCacheOf_def cacheHit_def objGet_def placeOf_def
        farFeature_def bounds_defs storage_defs world_fields)

theorem returned_coordinates_in_envelope_witness:
  "geocodePlace farNet ''M6'' (Some southPoint) farCachedState
     = (Inr (placeOf farFeature ''M6''), farCachedState\<lparr>ops := 1\<rparr>)
   \<and> inUkBounds (lat (placeOf farFeature ''M6'')) (lng (placeOf farFeature ''M6''))
   \<and> resolveEndpoint offline pinnedSegment To None None emptyState
       = (Inr (pin\<lparr>displayName := Some ''Override''\<rparr>), emptyState)
   \<and> inUkBounds (lat (pin\<lparr>displayName := Some ''Override''\<rparr>))
                 (lng (pin\<lparr>displayName := Some ''Override''\<rparr>))"
  using returned_coordinates_in_envelope[of farNet "''M6''" "Some southPoint" farCachedState
          "placeOf farFeature ''M6''" "farCachedState\<lparr>ops := 1\<rparr>"]
        returned_coordinates_in_envelope[of offline "[]" None emptyState origin emptyState
          pinnedSegment To None "pin\<lparr>displayName := Some ''Override''\<rparr>" emptyState]
        far_cached_hit pinned_override
  by simp

text \<open>
  C1 as stated fails: with an empty label, \<open>resolveEndpoint\<close> returns a hint that lies
  outside the envelope.
\<close>

theorem hint_outside_envelope_is_returned:
  "resolveEndpoint offline blankSegment From (Some origin) None emptyState
     = (Inr origin, emptyState)
   \<and> \<not> inUkBounds (lat origin) (lng origin)"
proof -
  have "trim [] = []" by (simp add: trim_def)
  then show ?thesis
    by (simp add: resolveEndpoint_def resolveOverride_def blankSegment_def usableHint_def
          origin_def bounds_defs undefinedV_def)
qed

section \<open>Overrides\<close>

lemma resolveOverride_Some:
  "resolveOverride (Some c) = (if usableOverride c then Some (converted c) else None)"
  by (simp add: resolveOverride_def usableOverride_def converted_def Let_def)

lemma resolveOverride_None: "resolveOverride None = None"
  by (simp add: resolveOverride_def undefinedV_def)

lemma resolveEndpoint_override:
  assumes "coordsOf k seg = Some c" "inUkBounds (lat c) (lng c)"
  shows "resolveEndpoint nw seg k hint lo s
           = (Inr \<lparr>lat = lat c, lng = lng c, displayName = Some ''Override''\<rparr>, s)"
  using assms inUkBounds_numbers[OF assms(2)]
  by (simp add: resolveEndpoint_def resolveOverride_def)

lemma resolveEndpoint_usable:
  assumes "coordsOf k seg = Some c" "usableOverride c"
  shows "resolveEndpoint w seg k hint lo s = (Inr (converted c), s)"
  using assms by (simp add: resolveEndpoint_def resolveOverride_Some)

lemma coordsOf_withoutCoords: "coordsOf k (withoutCoords k seg) = None"
  by (cases k) simp_all

lemma label_withoutCoords: "label k (withoutCoords k seg) = label k seg"
  by (cases k) simp_all

lemma resolveEndpoint_unusable:
  assumes "coordsOf k seg = Some c" "\<not> usableOverride c"
  shows "resolveEndpoint w seg k hint lo s = resolveEndpoint w (withoutCoords k seg) k hint lo s"
  using assms
  by (cases lo)
     (simp_all add: resolveEndpoint_def resolveOverride_Some resolveOverride_None
        coordsOf_withoutCoords label_withoutCoords)

text \<open>
  C4, as amended.  Let the override of the endpoint be present, and read its latitude
  and longitude through \<open>Number\<close>, as \<open>resolveOverride\<close> does.  If that reading is finite
  and inside the envelope, \<open>resolveEndpoint\<close> returns it without any request and
  without touching the state, whatever the label, the label override, the hint and the
  services are.  If it is not, the override is ignored: \<open>resolveEndpoint\<close> does what it
  does for the same segment without the override.
\<close>

theorem override_precedes_label:
  assumes "coordsOf k seg = Some c"
  shows "(usableOverride c \<longrightarrow>
            resolveEndpoint w seg k hint lo s
              = (Inr \<lparr>lat = VNumber (Number (lat c)), lng = VNumber (Number (lng c)),
                      displayName = Some ''Override''\<rparr>, s)
            \<and> (coordsOf k seg' = Some c \<longrightarrow>
                 fst (resolveEndpoint w' seg' k hint' lo' s')
                   = fst (resolveEndpoint w seg k hint lo s)))
       \<and> (\<not> usableOverride c \<longrightarrow>
            coordsOf k (withoutCoords k seg) = None
            \<and> label k (withoutCoords k seg) = label k seg
            \<and> resolveEndpoint w seg k hint lo s
                = resolveEndpoint w (withoutCoords k seg) k hint lo s)"
  using resolveEndpoint_usable[OF assms, of w hint lo s]
        resolveEndpoint_usable[of k seg' c w' hint' lo' s']
        resolveEndpoint_unusable[OF assms, of w hint lo s]
  by (simp add: converted_def coordsOf_withoutCoords label_withoutCoords)

lemma key_nowhere: "cacheKey ''Nowhere'' = ''nowhere''"
  by code_simp

lemma normalizeQ_nowhere:
  "normalizeQ ''Nowhere, UK'' = ''Nowhere, UK''" "normalizeQ ''Nowhere'' = ''Nowhere''"
  by code_simp+

lemma trim_nowhere: "trim ''Nowhere'' = ''Nowhere''"
  by code_simp

text \<open>No service knows the label \<open>Nowhere\<close>: the lookup fails after two place searches.\<close>

lemma nowhere_lookup:
  "geocodePlace offline ''Nowhere'' hint emptyState
     = (Inl (NoMatch ''Nowhere''),
        emptyState\<lparr>requests := [PhotonReq ''Nowhere, UK'', PhotonReq ''Nowhere''], ops := 2\<rparr>)"
  by (simp add: geocodePlace_def Let_def key_nowhere normalizeQ_nowhere
        emptyState_def currentVersion_def GEOCODE_CACHE_VERSION_def freshCacheOf_def
        cacheHit_def objGet_def tryFetch_def chooseFeature_def storage_defs world_fields)

lemma usable_examples:
  "usableOverride pin" "\<not> usableOverride origin" "usableOverride nullLngPin"
  "\<not> inUkBounds (lat nullLngPin) (lng nullLngPin)"
  by (simp_all add: usableOverride_def pin_def origin_def nullLngPin_def nullV_def bounds_defs)

theorem override_precedes_label_witness:
  "resolveEndpoint farNet pinnedSegment To None None emptyState
     = (Inr \<lparr>lat = num 52.5, lng = num (- 0.9), displayName = Some ''Override''\<rparr>, emptyState)
   \<and> fst (resolveEndpoint offline (pinnedSegment\<lparr>segTo := ''Leicester LE1''\<rparr>) To
           (Some southPoint) (Some ''Grantham'') farCachedState)
       = fst (resolveEndpoint farNet pinnedSegment To None None emptyState)
   \<and> resolveEndpoint offline nullPinSegment To None None emptyState
       = (Inr \<lparr>lat = num 52.5, lng = num 0, displayName = Some ''Override''\<rparr>, emptyState)
   \<and> resolveEndpoint offline strayPinSegment To None None emptyState
       = resolveEndpoint offline (withoutCoords To strayPinSegment) To None None emptyState
   \<and> resolveEndpoint offline (withoutCoords To strayPinSegment) To None None emptyState
       = (Inl (NoMatch ''Nowhere''),
          emptyState\<lparr>requests := [PhotonReq ''Nowhere, UK'', PhotonReq ''Nowhere''], ops := 2\<rparr>)"
proof -
  have c: "coordsOf To pinnedSegment = Some pin"
          "coordsOf To (pinnedSegment\<lparr>segTo := ''Leicester LE1''\<rparr>) = Some pin"
          "coordsOf To nullPinSegment = Some nullLngPin"
          "coordsOf To strayPinSegment = Some origin"
    by (simp_all add: pinnedSegment_def nullPinSegment_def strayPinSegment_def)
  have n: "Number (lat pin) = Num 52.5" "Number (lng pin) = Num (- 0.9)"
          "Number (lat nullLngPin) = Num 52.5" "Number (lng nullLngPin) = Num 0"
    by (simp_all add: pin_def nullLngPin_def nullV_def)
  have g: "resolveEndpoint offline (withoutCoords To strayPinSegment) To None None emptyState
             = geocodePlace offline ''Nowhere'' None emptyState"
    by (simp add: resolveEndpoint_def resolveOverride_None strayPinSegment_def blankSegment_def
          trim_nowhere)
  show ?thesis
    using override_precedes_label[OF c(1), of farNet None None emptyState
            "pinnedSegment\<lparr>segTo := ''Leicester LE1''\<rparr>" offline "Some southPoint"
            "Some ''Grantham''" farCachedState]
          override_precedes_label[OF c(3), of offline None None emptyState]
          override_precedes_label[OF c(4), of offline None None emptyState]
          c(2) usable_examples g nowhere_lookup[of None]
    by (simp add: n)
qed

text \<open>
  C4 as stated fails: an override outside the envelope is present, yet the label is
  geocoded, with two place-search requests.
\<close>

theorem stray_override_is_geocoded:
  "coordsOf To strayPinSegment = Some origin
   \<and> resolveEndpoint offline strayPinSegment To None None emptyState
       = (Inl (NoMatch ''Nowhere''),
          emptyState\<lparr>requests := [PhotonReq ''Nowhere, UK'', PhotonReq ''Nowhere''], ops := 2\<rparr>)"
proof -
  have "resolveEndpoint offline strayPinSegment To None None emptyState
          = geocodePlace offline ''Nowhere'' None emptyState"
    by (simp add: resolveEndpoint_def resolveOverride_def strayPinSegment_def blankSegment_def
          origin_def bounds_defs trim_nowhere)
  then show ?thesis by (simp add: nowhere_lookup strayPinSegment_def)
qed

lemma resolveTo_pinned:
  assumes "toCoords seg = Some c" "inUkBounds (lat c) (lng c)"
  shows "resolveTo nw seg toLabel a st
           = (Inr (Some \<lparr>lat = lat c, lng = lng c, displayName = None\<rparr>), st)"
  using assms inUkBounds_numbers[OF assms(2)] by (simp add: resolveTo_def pinned_def)

text \<open>
  C5.  If the override of the endpoint satisfies the envelope, \<open>resolveEndpoint\<close>
  returns exactly its latitude and longitude, whatever the label says, and leaves the
  state, hence the request log, as it was; the path builder takes a valid \<open>toCoords\<close>
  for the TO point in the same way.
\<close>

theorem valid_override_returned_verbatim:
  assumes "coordsOf k seg = Some c" "inUkBounds (lat c) (lng c)"
  shows "resolveEndpoint nw seg k hint lo s
           = (Inr \<lparr>lat = lat c, lng = lng c, displayName = Some ''Override''\<rparr>, s)
       \<and> (k = To \<longrightarrow>
            resolveTo nw seg toLabel a st
              = (Inr (Some \<lparr>lat = lat c, lng = lng c, displayName = None\<rparr>), st))"
  using resolveEndpoint_override[OF assms] resolveTo_pinned[OF _ assms(2), of seg nw toLabel a st]
        assms(1)
  by auto

theorem valid_override_returned_verbatim_witness:
  "isInstructionLikeLabel (segTo pinnedSegment)
   \<and> resolveEndpoint farNet pinnedSegment To None None emptyState
       = (Inr \<lparr>lat = num 52.5, lng = num (- 0.9), displayName = Some ''Override''\<rparr>, emptyState)"
proof -
  have c: "coordsOf To pinnedSegment = Some pin" by (simp add: pinnedSegment_def)
  have b: "inUkBounds (lat pin) (lng pin)" by (simp add: pin_def bounds_defs)
  have n: "isInstructionLikeLabel (segTo pinnedSegment)" by code_simp
  show ?thesis
    using valid_override_returned_verbatim[OF c b, of farNet None None emptyState] n
    by (simp add: pin_def)
qed

section \<open>The initial chain anchor\<close>

lemma initPrev_labelled:
  assumes "trim (orElse (startPostcode r) (startLabel r)) \<noteq> []"
  shows "initPrev nw r s =
           (case pinned (startCoords r) of
              Some p \<Rightarrow> (Some p, s)
            | None \<Rightarrow>
                (case geocodePlace nw (trim (orElse (startPostcode r) (startLabel r))) None s of
                   (Inr p, s') \<Rightarrow> (Some p, s')
                 | (Inl e, s') \<Rightarrow> (None, s')))"
  using assms by (simp add: initPrev_def Let_def)

text \<open>
  C2 fails on the code.  A route whose \<open>startCoords\<close> satisfy the envelope but whose
  start postcode and start label are both empty begins its chain with no anchor at
  all: the test of \<open>startAnchorLabel\<close> comes before the test of \<open>startCoords\<close>.  The
  fallback after the loop, in contrast, takes the same \<open>startCoords\<close> as the start
  anchor.
\<close>

theorem pinned_start_without_label_is_ignored:
  "pinned (startCoords pinnedRoute) = Some pin
   \<and> initPrev nw pinnedRoute s = (None, s)
   \<and> startAnchor nw pinnedRoute s = (Inr pin, s)"
proof -
  have t: "trim [] = []" by (simp add: trim_def)
  have p: "pinned (Some pin) = Some pin" by (simp add: pinned_def pin_def bounds_defs)
  show ?thesis
    by (simp add: initPrev_def startAnchor_def pinnedRoute_def blankRoute_def orElse_def t p)
qed

section \<open>Distances along a meridian\<close>

lemma haversine_same_lng:
  assumes "Number (lng a) = Num x" "Number (lng b) = Num x"
      and "Number (lat a) = Num y1" "Number (lat b) = Num y2"
      and "y1 \<le> y2" "y2 - y1 \<le> 180"
  shows "haversine R a b = Num (R * toRad (y2 - y1))"
proof -
  define t where "t = toRad (y2 - y1) / 2"
  have t0: "0 \<le> t" using assms(5) by (simp add: t_def toRad_def)
  have "toRad (y2 - y1) \<le> pi"
    using assms(6) pi_ge_zero
    by (simp add: toRad_def)
  then have t1: "t \<le> pi / 2" by (simp add: t_def)
  have s0: "0 \<le> sin t" using t0 t1 by (intro sin_ge_zero) (auto intro: order_trans)
  have s1: "sin t * sin t \<le> 1"
    using s0 sin_le_one[of t] by (metis mult_le_one)
  have sq: "sqrt (sin t * sin t) = sin t" using s0 by simp
  have as: "arcsin (sin t) = t" using t0 t1 by (intro arcsin_sin) auto
  have h: "\<not> (sin t * sin t < 0)" using s0 by (simp add: not_less)
  have h1: "\<not> (1 < sin t * sin t)" using s1 by simp
  have z: "toRad 0 = 0" by (simp add: toRad_def)
  have "haversine R a b =
          (if sin t * sin t < 0 \<or> sin t * sin t > 1 then NaN
           else Num (2 * R * arcsin (sqrt (sin t * sin t))))"
    by (simp add: haversine_def assms(1-4) Let_def z t_def)
  also have "\<dots> = Num (2 * R * t)" using h h1 s0 by (simp add: as)
  also have "\<dots> = Num (R * toRad (y2 - y1))" by (simp add: t_def)
  finally show ?thesis .
qed


lemma south_to_north: "haversineKm southPoint northPoint = Num (6371 * toRad 10)"
  using haversine_same_lng[of southPoint 0 northPoint 50 60 6371]
  by (simp add: haversineKm_def southPoint_def northPoint_def)

lemma south_to_near: "haversineKm southPoint nearPoint = Num (6371 * toRad (1 / 10))"
  using haversine_same_lng[of southPoint 0 nearPoint 50 "50.1" 6371]
  by (simp add: haversineKm_def southPoint_def nearPoint_def)

lemma jump_north: "unrealisticJump southPoint northPoint"
proof -
  have "(6371::real) * (10 * 2 / 180) \<le> 6371 * (10 * pi / 180)"
    using pi_ge_two by simp
  then show ?thesis by (simp add: unrealisticJump_def south_to_north toRad_def)
qed

lemma no_jump_near: "\<not> unrealisticJump southPoint nearPoint"
proof -
  have "(6371::real) * (1 / 10 * pi / 180) \<le> 6371 * (1 / 10 * 4 / 180)"
    using pi_less_4 by simp
  then show ?thesis by (simp add: unrealisticJump_def south_to_near toRad_def)
qed

section \<open>The segment loop\<close>

lemma resolveFrom_frame:
  "resolveFrom w seg fromLabel st = (res, st') \<Longrightarrow>
     prev st' = prev st \<and> failedSegments st' = failedSegments st
     \<and> layer st' = layer st \<and> bounds st' = bounds st"
  unfolding resolveFrom_def
  by (auto split: option.splits if_splits prod.splits sum.splits)

lemma resolveTo_frame:
  "resolveTo w seg toLabel a st = (res, st') \<Longrightarrow>
     prev st' = prev st \<and> failedSegments st' = failedSegments st
     \<and> layer st' = layer st \<and> bounds st' = bounds st"
  unfolding resolveTo_def
  by (auto split: option.splits if_splits prod.splits sum.splits)

lemma drawLine_cases:
  "drawLine w pl st = (res, st') \<Longrightarrow>
     prev st' = prev st \<and> failedSegments st' = failedSegments st
     \<and> (case res of
          None \<Rightarrow> draws w (latlngs pl) \<and> layer st' = layer st @ [pl]
        | Some err \<Rightarrow> \<not> draws w (latlngs pl) \<and> err = DrawError \<and> layer st' = layer st)"
  by (auto simp: drawLine_def Let_def split: if_splits)

lemma swapPoints_error: "swapPoints cs = Inl err \<Longrightarrow> err = TypeError"
  by (simp add: swapPoints_def split: if_splits)

lemma lineOf_error: "lineOf coords a b = Inl err \<Longrightarrow> err = TypeError"
  by (auto simp: lineOf_def split: option.splits dest: swapPoints_error)

lemma osrmRoute_error: "osrmRoute w a b s = (Inl err, s') \<Longrightarrow> err = TypeError"
  by (auto simp: osrmRoute_def Let_def split: prod.splits option.splits if_splits)

text \<open>
  The errors of resolution and of the distance guard are thrown before the assignment
  to \<open>prev\<close> and before any drawing.
\<close>

lemma segmentTry_resolution_frame:
  assumes "segmentTry w r segs i seg st = (Some err, st')" "resolutionFailure err"
  shows "prev st' = prev st \<and> failedSegments st' = failedSegments st
       \<and> layer st' = layer st \<and> bounds st' = bounds st"
proof (cases "case geometry seg of None \<Rightarrow> None | Some g \<Rightarrow> if length g \<ge> 2 then Some g else None")
  case (Some coords)
  show ?thesis
  proof (cases "swapPoints coords")
    case (Inl e)
    then show ?thesis using assms Some by (simp add: segmentTry_def)
  next
    case (Inr lls)
    then obtain st1 where "drawLine w (segmentLine seg True lls) st1 = (Some err, st')"
      using assms(1) Some by (auto simp: segmentTry_def Let_def)
    from drawLine_cases[OF this] show ?thesis using assms(2) by simp
  qed
next
  case None
  define fromLabel where "fromLabel = effectiveLabelForEndpoint r segs i From"
  define toLabel where "toLabel =
    (if effectiveLabelForEndpoint r segs i To = [] then nextAnchorLabel r segs i
     else effectiveLabelForEndpoint r segs i To)"
  obtain ra st1 where rf: "resolveFrom w seg fromLabel st = (ra, st1)"
    by (cases "resolveFrom w seg fromLabel st")
  note f1 = resolveFrom_frame[OF rf]
  show ?thesis
  proof (cases ra)
    case (Inl e)
    then show ?thesis
      using assms(1) None rf f1 by (simp add: segmentTry_def Let_def fromLabel_def)
  next
    case (Inr oa)
    show ?thesis
    proof (cases oa)
      case None2: None
      then show ?thesis
        using assms(1) None rf f1 Inr by (simp add: segmentTry_def Let_def fromLabel_def)
    next
      case (Some a)
      obtain rb st2 where rt: "resolveTo w seg toLabel a st1 = (rb, st2)"
        by (cases "resolveTo w seg toLabel a st1")
      note f2 = resolveTo_frame[OF rt]
      have body: "segmentTry w r segs i seg st =
        (case rb of
           Inl err \<Rightarrow> (Some err, st2)
         | Inr None \<Rightarrow> (Some (BadEndpoint (road seg)), st2)
         | Inr (Some b) \<Rightarrow>
             if \<not> inUkBounds (lat b) (lng b) then (Some (BadEndpoint (road seg)), st2)
             else if unrealisticJump a b then (Some UnrealisticJump, st2)
             else
               (let st3 = st2\<lparr>prev := Some b\<rparr> in
                case osrmRoute w a b (env st3) of
                  (Inl err, e') \<Rightarrow> (Some err, st3\<lparr>env := e'\<rparr>)
                | (Inr coords, e') \<Rightarrow>
                    (case lineOf coords a b of
                       Inl err \<Rightarrow> (Some err, st3\<lparr>env := e'\<rparr>)
                     | Inr lls \<Rightarrow>
                         drawLine w (segmentLine seg (coords \<noteq> None) lls)
                           (st3\<lparr>env := e'\<rparr>))))"
        using None rf Inr Some rt
        by (simp add: segmentTry_def Let_def fromLabel_def toLabel_def)
      show ?thesis
      proof (cases rb)
        case Inl2: (Inl e)
        then show ?thesis using assms(1) body f1 f2 by simp
      next
        case Inr2: (Inr ob)
        show ?thesis
        proof (cases ob)
          case None3: None
          then show ?thesis using assms(1) body f1 f2 Inr2 by simp
        next
          case Some2: (Some b)
          show ?thesis
          proof (cases "\<not> inUkBounds (lat b) (lng b) \<or> unrealisticJump a b")
            case True
            then show ?thesis
              using assms(1) body f1 f2 Inr2 Some2 by (auto split: if_splits)
          next
            case False
            obtain rc e' where os: "osrmRoute w a b (env (st2\<lparr>prev := Some b\<rparr>)) = (rc, e')"
              by (cases "osrmRoute w a b (env (st2\<lparr>prev := Some b\<rparr>))")
            show ?thesis
            proof (cases rc)
              case Inl3: (Inl e)
              then have "e = TypeError" using os osrmRoute_error by blast
              then show ?thesis
                using assms body Inr2 Some2 False os Inl3 by (simp add: Let_def)
            next
              case Inr3: (Inr coords)
              show ?thesis
              proof (cases "lineOf coords a b")
                case Inl4: (Inl e)
                then have "e = TypeError" using lineOf_error by blast
                then show ?thesis
                  using assms body Inr2 Some2 False os Inr3 Inl4 by (simp add: Let_def)
              next
                case Inr4: (Inr lls)
                then have "drawLine w (segmentLine seg (coords \<noteq> None) lls)
                             (st2\<lparr>prev := Some b, env := e'\<rparr>) = (Some err, st')"
                  using assms(1) body Inr2 Some2 False os Inr3 by (simp add: Let_def)
                from drawLine_cases[OF this] show ?thesis using assms(2) by simp
              qed
            qed
          qed
        qed
      qed
    qed
  qed
qed


lemma segmentStep_failure:
  assumes "fst (segmentTry w r segs i (segs ! i) st) = Some err" "resolutionFailure err"
  shows "failedSegments (segmentStep w r segs i st) = failedSegments st + 1
       \<and> prev (segmentStep w r segs i st) = prev st
       \<and> layer (segmentStep w r segs i st) = layer st
       \<and> bounds (segmentStep w r segs i st) = bounds st"
proof -
  obtain st' where t: "segmentTry w r segs i (segs ! i) st = (Some err, st')"
    using assms by (cases "segmentTry w r segs i (segs ! i) st") auto
  show ?thesis
    using segmentTry_resolution_frame[OF t assms(2)] by (simp add: segmentStep_def t)
qed



text \<open>
  C6.  When the body of the loop fails for segment \<open>i\<close> with an error of endpoint
  resolution (a failed lookup, a missing FROM point, a bad endpoint) or of the distance
  guard, \<open>failedSegments\<close> grows by one, the chain anchor \<open>prev\<close>, the drawn lines and
  the collected bounds stay as they were, and the loop goes on with segment \<open>i + 1\<close>.
\<close>

theorem failed_segment_keeps_anchor:
  assumes "i < length segs"
      and "fst (segmentTry w r segs i (segs ! i) st) = Some err"
      and "resolutionFailure err"
  shows "failedSegments (segmentStep w r segs i st) = failedSegments st + 1
       \<and> prev (segmentStep w r segs i st) = prev st
       \<and> layer (segmentStep w r segs i st) = layer st
       \<and> bounds (segmentStep w r segs i st) = bounds st
       \<and> segLoop w r segs i st = segLoop w r segs (i + 1) (segmentStep w r segs i st)"
  using segmentStep_failure[OF assms(2,3)] assms(1)
  by (simp add: segLoop.simps[of w r segs i st])

lemma segment_fields:
  "geometry blankSegment = None" "fromCoords blankSegment = None"
  "toCoords blankSegment = None" "road blankSegment = []"
  "geometry farPinSegment = None" "toCoords farPinSegment = Some northPoint"
  "geometry lostSegment = None" "toCoords lostSegment = None"
  "geometry nearPinSegment = None" "toCoords nearPinSegment = Some nearPoint"
  "geometry drawnSegment = Some [EArr [num (- 0.9), num 52.5], EArr [num (- 0.8), num 52.6]]"
  by (simp_all add: blankSegment_def farPinSegment_def lostSegment_def nearPinSegment_def
        drawnSegment_def)

lemma pinned_points:
  "pinned (Some northPoint) = Some northPoint" "pinned (Some nearPoint) = Some nearPoint"
  "pinned (Some pin) = Some pin" "pinned (Some yardPin) = Some yardPin" "pinned None = None"
  "inUkBounds (lat northPoint) (lng northPoint)" "inUkBounds (lat nearPoint) (lng nearPoint)"
  by (simp_all add: pinned_def northPoint_def nearPoint_def pin_def yardPin_def bounds_defs)

lemma drawn_line:
  "draws w [(num 52.5, num (- 0.9)), (num 52.6, num (- 0.8))] \<Longrightarrow>
   segmentTry w r segs i drawnSegment st
     = (None,
        st\<lparr>prev := Some \<lparr>lat = num 52.6, lng = num (- 0.8), displayName = None\<rparr>,
           bounds := bounds st @ [(num 52.5, num (- 0.9)), (num 52.6, num (- 0.8))],
           layer := layer st
             @ [segmentLine drawnSegment True [(num 52.5, num (- 0.9)), (num 52.6, num (- 0.8))]]\<rparr>)"
  by (simp add: segmentTry_def segment_fields swapPoints_def bounds_defs drawLine_def
        segmentLine_def Let_def)

text \<open>The segment pinned far to the north fails the distance guard.\<close>

lemma far_pin_fails:
  "segmentTry offline jumpRoute [farPinSegment, drawnSegment] 0 farPinSegment anchoredState
     = (Some UnrealisticJump, anchoredState)"
  by (simp add: segmentTry_def Let_def segment_fields resolveFrom_def resolveTo_def
        pinned_points anchoredState_def startState_def jump_north)

text \<open>The segment whose TO label no service knows fails in the lookup.\<close>

lemma lost_segment_fails:
  "segmentTry offline lostRoute [lostSegment, drawnSegment] 0 lostSegment anchoredState
     = (Some (NoMatch ''Nowhere''),
        anchoredState\<lparr>env := emptyState\<lparr>requests := [PhotonReq ''Nowhere, UK'', PhotonReq ''Nowhere''],
                                       ops := 2\<rparr>\<rparr>)"
proof -
  have l: "effectiveLabelForEndpoint lostRoute [lostSegment, drawnSegment] 0 To = ''Nowhere''"
    by code_simp
  show ?thesis
    by (simp add: segmentTry_def Let_def segment_fields resolveFrom_def resolveTo_def
          pinned_points anchoredState_def startState_def l nowhere_lookup)
qed

theorem failed_segment_keeps_anchor_witness:
  "prev anchoredState = Some southPoint
   \<and> fst (segmentTry offline jumpRoute [farPinSegment, drawnSegment] 0 farPinSegment anchoredState)
       = Some UnrealisticJump
   \<and> failedSegments (segmentStep offline jumpRoute [farPinSegment, drawnSegment] 0 anchoredState) = 1
   \<and> prev (segmentStep offline jumpRoute [farPinSegment, drawnSegment] 0 anchoredState)
       = Some southPoint
   \<and> layer (segmentStep offline jumpRoute [farPinSegment, drawnSegment] 0 anchoredState) = []
   \<and> segLoop offline jumpRoute [farPinSegment, drawnSegment] 0 anchoredState
       = segLoop offline jumpRoute [farPinSegment, drawnSegment] 1
           (segmentStep offline jumpRoute [farPinSegment, drawnSegment] 0 anchoredState)
   \<and> segLoop offline jumpRoute [farPinSegment, drawnSegment] 0 anchoredState
       = \<lparr>prev = Some \<lparr>lat = num 52.6, lng = num (- 0.8), displayName = None\<rparr>,
          failedSegments = 1,
          layer = [segmentLine drawnSegment True [(num 52.5, num (- 0.9)), (num 52.6, num (- 0.8))]],
          bounds = [(num 52.5, num (- 0.9)), (num 52.6, num (- 0.8))],
          env = emptyState\<rparr>
   \<and> fst (segmentTry offline lostRoute [lostSegment, drawnSegment] 0 lostSegment anchoredState)
       = Some (NoMatch ''Nowhere'')
   \<and> failedSegments (segmentStep offline lostRoute [lostSegment, drawnSegment] 0 anchoredState) = 1
   \<and> prev (segmentStep offline lostRoute [lostSegment, drawnSegment] 0 anchoredState)
       = Some southPoint"
proof -
  let ?js = "[farPinSegment, drawnSegment]"
  let ?ls = "[lostSegment, drawnSegment]"
  have i: "(0::nat) < length ?js" "(0::nat) < length ?ls" by simp_all
  have f1: "fst (segmentTry offline jumpRoute ?js 0 (?js ! 0) anchoredState) = Some UnrealisticJump"
    by (simp add: far_pin_fails)
  have f2: "fst (segmentTry offline lostRoute ?ls 0 (?ls ! 0) anchoredState)
              = Some (NoMatch ''Nowhere'')"
    by (simp add: lost_segment_fails)
  have step: "segmentStep offline jumpRoute ?js 0 anchoredState
                = anchoredState\<lparr>failedSegments := 1\<rparr>"
    using far_pin_fails by (simp add: segmentStep_def anchoredState_def startState_def)
  have rest: "segLoop offline jumpRoute ?js 1 (anchoredState\<lparr>failedSegments := 1\<rparr>)
       = \<lparr>prev = Some \<lparr>lat = num 52.6, lng = num (- 0.8), displayName = None\<rparr>,
          failedSegments = 1,
          layer = [segmentLine drawnSegment True [(num 52.5, num (- 0.9)), (num 52.6, num (- 0.8))]],
          bounds = [(num 52.5, num (- 0.9)), (num 52.6, num (- 0.8))],
          env = emptyState\<rparr>"
    by (simp add: segLoop.simps[of _ _ ?js] segmentStep_def drawn_line world_fields
          anchoredState_def startState_def)
  show ?thesis
    using failed_segment_keeps_anchor[OF i(1) f1] failed_segment_keeps_anchor[OF i(2) f2]
          f1 f2 step rest
    by (simp add: anchoredState_def startState_def)
qed

text \<open>
  An error thrown later in the body is counted in the same way, but by then the anchor
  has moved: here the routing payload is an array of two \<open>null\<close>s, which \<open>osrmRoute\<close>
  accepts and the mapping of the points throws on.
\<close>

lemma late_failure_advances_anchor:
  "fst (segmentTry nullNet nearRoute [nearPinSegment] 0 nearPinSegment anchoredState)
     = Some TypeError
   \<and> prev anchoredState = Some southPoint
   \<and> prev (segmentStep nullNet nearRoute [nearPinSegment] 0 anchoredState) = Some nearPoint
   \<and> failedSegments (segmentStep nullNet nearRoute [nearPinSegment] 0 anchoredState) = 1
   \<and> layer (segmentStep nullNet nearRoute [nearPinSegment] 0 anchoredState) = []"
proof -
  obtain k where k: "osrmKey southPoint nearPoint = Some k"
    by (simp add: osrmKey_def southPoint_def nearPoint_def)
  have o: "osrmRoute nullNet southPoint nearPoint emptyState
             = (Inr (Some [ENull, ENull]),
                emptyState\<lparr>osrmStore := [(k, SArr [ENull, ENull])],
                           requests := [OsrmReq southPoint nearPoint], ops := 2\<rparr>)"
    by (simp add: osrmRoute_def Let_def k cachedRoute_def emptyState_def storage_defs
          world_fields evict_def)
  have t: "segmentTry nullNet nearRoute [nearPinSegment] 0 nearPinSegment anchoredState
             = (Some TypeError,
                anchoredState\<lparr>prev := Some nearPoint,
                  env := emptyState\<lparr>osrmStore := [(k, SArr [ENull, ENull])],
                           requests := [OsrmReq southPoint nearPoint], ops := 2\<rparr>\<rparr>)"
    by (simp add: segmentTry_def Let_def segment_fields resolveFrom_def resolveTo_def
          pinned_points anchoredState_def startState_def no_jump_near o lineOf_def swapPoints_def)
  show ?thesis
    by (simp add: segmentStep_def t) (simp add: anchoredState_def startState_def)
qed

section \<open>The whole-route fallback\<close>



text \<open>Between points of the envelope, \<open>osrmRoute\<close> does not throw.\<close>

lemma toFixed6_inBounds:
  "inUkBounds y x \<Longrightarrow> (\<exists>f. toFixed6 y = Some f) \<and> (\<exists>g. toFixed6 x = Some g)"
  by (cases "(y, x)" rule: inUkBounds.cases) simp_all

lemma osrmKey_inBounds:
  assumes "inUkBounds (lat a) (lng a)" "inUkBounds (lat b) (lng b)"
  shows "\<exists>k. osrmKey a b = Some k"
  using toFixed6_inBounds[OF assms(1)] toFixed6_inBounds[OF assms(2)]
  by (auto simp: osrmKey_def)

lemma osrmRoute_returns:
  assumes "inUkBounds (lat a) (lng a)" "inUkBounds (lat b) (lng b)"
  shows "\<exists>coords s'. osrmRoute w a b s = (Inr coords, s')"
proof -
  obtain k where k: "osrmKey a b = Some k" using osrmKey_inBounds[OF assms] by blast
  show ?thesis
    by (auto simp: osrmRoute_def Let_def k split: prod.splits option.splits)
qed





lemma pin_key: "osrmKey pin yardPin = Some pinKey"
  by (simp add: osrmKey_def pin_def yardPin_def pinKey_def)






section \<open>The nearest candidate\<close>










text \<open>
  The storage operations leave the request log alone, and a place search leaves the
  stores alone.
\<close>

lemma writeGeocode_frame:
  "requests (writeGeocode w v s) = requests s \<and> osrmStore (writeGeocode w v s) = osrmStore s
   \<and> ops (writeGeocode w v s) = ops s + 1"
  by (simp add: writeGeocode_def)

lemma tryFetch_frame:
  "tryFetch w hint q s
     = (chooseFeature hint (photon w (length (requests s)) (normalizeQ q)),
        s\<lparr>requests := requests s @ [PhotonReq (normalizeQ q)]\<rparr>)"
  by (simp add: tryFetch_def Let_def)



text \<open>A miss in the stored cache is a miss in the cache as read, whether or not reading works.\<close>

lemma stored_miss_is_read_miss:
  assumes "cacheHit (freshCacheOf (geocodeStore s)) k = None"
  shows "cacheHit (freshCacheOf (fst (readGeocode w s))) k = None"
proof (cases "storage w (ops s)")
  case True
  then show ?thesis using assms by (simp add: readGeocode_def)
next
  case False
  have "cacheHit (freshCacheOf []) k = None"
    by (simp add: cacheHit_def freshCacheOf_def currentVersion_def objGet_def
          GEOCODE_CACHE_VERSION_def)
  then show ?thesis using False by (simp add: readGeocode_def)
qed











section \<open>Repeated lookups\<close>

lemma version_kept_update: "k \<noteq> ''__v'' \<Longrightarrow> currentVersion (AList.update k v m) = currentVersion m"
  by (simp add: currentVersion_def update_conv')

lemma version_kept_delete: "k \<noteq> ''__v'' \<Longrightarrow> currentVersion (AList.delete k m) = currentVersion m"
  by (simp add: currentVersion_def delete_conv')

lemma freshCacheOf_current: "currentVersion (freshCacheOf c)"
  by (simp add: freshCacheOf_def currentVersion_def)

lemma freshCacheOf_id: "currentVersion c \<Longrightarrow> freshCacheOf c = c"
  by (simp add: freshCacheOf_def)

lemma stale_cache_misses:
  assumes "\<not> currentVersion c" "k \<noteq> ''__v''"
  shows "cacheHit (freshCacheOf c) k = None"
  using assms by (simp add: cacheHit_def freshCacheOf_def objGet_def)

lemma cacheHit_after_store:
  assumes "k \<noteq> ''__proto__''" "inUkBounds (lat p) (lng p)"
  shows "cacheHit (objSet m k (GPlace p)) k = Some p"
  using assms by (simp add: cacheHit_def objSet_def objGet_def update_conv')

text \<open>
  A lookup that reads, from a current cache, a usable place for the key changes
  nothing but the count of storage operations.
\<close>

lemma geocodePlace_hit:
  assumes "storage w (ops s)" "currentVersion (geocodeStore s)" "cacheKey lbl \<noteq> []"
      and "cacheHit (geocodeStore s) (cacheKey lbl) = Some p"
  shows "geocodePlace w lbl hint s = (Inr p, s\<lparr>ops := ops s + 1\<rparr>)"
  using assms by (simp add: geocodePlace_def Let_def freshCacheOf_id readGeocode_def)

text \<open>A cache that could not be read holds nothing for any key.\<close>

lemma unread_cache_misses: "k \<noteq> ''__v'' \<Longrightarrow> cacheHit (freshCacheOf []) k = None"
  by (simp add: cacheHit_def freshCacheOf_def currentVersion_def objGet_def)

lemma geocodePlace_success:
  assumes "geocodePlace w lbl hint s = (Inr p, s1)"
      and "cacheKey lbl \<noteq> ''__v''" "cacheKey lbl \<noteq> ''__proto__''"
      and "storage w (ops s1 - 1)"
  shows "currentVersion (geocodeStore s1) \<and> cacheKey lbl \<noteq> []
       \<and> cacheHit (geocodeStore s1) (cacheKey lbl) = Some p
       \<and> length (requests s1) \<le> length (requests s) + 2"
proof -
  let ?k = "cacheKey lbl"
  obtain cache sr where r: "readGeocode w s = (cache, sr)" by (cases "readGeocode w s")
  then have sr: "sr = s\<lparr>ops := ops s + 1\<rparr>"
    and cache: "cache = (if storage w (ops s) then geocodeStore s else [])"
    by (auto simp: readGeocode_def)
  let ?fc = "freshCacheOf cache"
  define s1a where "s1a = (if currentVersion cache then sr else writeGeocode w [] sr)"
  have ne: "?k \<noteq> []"
    using assms(1) by (auto simp: geocodePlace_def Let_def r split: if_splits)
  show ?thesis
  proof (cases "cacheHit ?fc ?k")
    case (Some c)
    have rd: "storage w (ops s)"
      using Some unread_cache_misses[OF assms(2)] cache by (cases "storage w (ops s)") auto
    then have cs: "cache = geocodeStore s" using cache by simp
    have cur: "currentVersion (geocodeStore s)"
      using Some stale_cache_misses[OF _ assms(2), of "geocodeStore s"] cs by auto
    have "geocodePlace w lbl hint s = (Inr c, s\<lparr>ops := ops s + 1\<rparr>)"
      using Some ne cur cs sr by (simp add: geocodePlace_def Let_def r)
    then have "p = c" "s1 = s\<lparr>ops := ops s + 1\<rparr>" using assms(1) by simp_all
    then show ?thesis using Some cur ne cs by (simp add: freshCacheOf_id)
  next
    case None
    define fc2 where "fc2 = (if truthy (objGet ?fc ?k) then AList.delete ?k ?fc else ?fc)"
    have cur2: "currentVersion fc2"
      using freshCacheOf_current[of cache] assms(2)
      by (simp add: fc2_def version_kept_delete)
    from assms(1) None ne obtain s4 where
      s1: "s1 = writeGeocode w (objSet fc2 ?k (GPlace p)) s4"
      and b: "inUkBounds (lat p) (lng p)"
      and rq: "length (requests s4) \<le> length (requests s) + 2"
      by (auto simp: geocodePlace_def Let_def r sr fc2_def tryFetch_frame writeGeocode_frame
               split: option.splits if_splits)
    have "ops s1 - 1 = ops s4" using s1 by (simp add: writeGeocode_frame)
    then have st: "geocodeStore s1 = objSet fc2 ?k (GPlace p)"
      using assms(4) s1 by (simp add: writeGeocode_def)
    have "currentVersion (objSet fc2 ?k (GPlace p))"
      using cur2 assms(2) by (simp add: objSet_def version_kept_update)
    then show ?thesis
      using st s1 rq ne cacheHit_after_store[OF assms(3) b, of fc2]
      by (simp add: writeGeocode_frame)
  qed
qed

text \<open>
  C8, as amended.  Let the key of a label (trimmed, in lower case) be neither \<open>__v\<close>
  nor \<open>__proto__\<close>.  Once a lookup of the label has succeeded, and provided that
  \<open>localStorage\<close> accepted the last storage operation of that lookup (the write of the
  place it found) and accepts the read of the next one, a lookup of any label with the
  same key that follows at once returns the same place and leaves the caches and the
  request log as they are, so it makes no request; the first lookup makes at most two
  requests.
\<close>

theorem repeated_lookup_served_from_cache:
  assumes "geocodePlace nw lbl hint s = (Inr p, s1)"
      and "cacheKey lbl \<noteq> ''__v''" "cacheKey lbl \<noteq> ''__proto__''"
      and "cacheKey lbl' = cacheKey lbl"
      and "storage nw (ops s1 - 1)" "storage nw' (ops s1)"
  shows "geocodePlace nw' lbl' hint' s1 = (Inr p, s1\<lparr>ops := ops s1 + 1\<rparr>)
       \<and> length (requests s1) \<le> length (requests s) + 2"
  using geocodePlace_success[OF assms(1-3,5)]
        geocodePlace_hit[OF assms(6), of lbl' p hint'] assms(4)
  by simp

lemma normalizeQ_m6: "normalizeQ ''M6, UK'' = ''M6, UK''" "normalizeQ ''M6'' = ''M6''"
  by code_simp+

lemma near_place: "inUkBounds (lat (placeOf nearFeature ''M6'')) (lng (placeOf nearFeature ''M6''))"
  by (simp add: placeOf_def nearFeature_def bounds_defs)

lemma near_choice:
  "chooseFeature None (Some [nearFeature]) = Some nearFeature" "chooseFeature hint None = None"
  by (simp_all add: chooseFeature_def featureInBounds_def nearFeature_def bounds_defs
        usableHint_def)

lemma retry_first_lookup:
  "geocodePlace retryNet ''M6'' None emptyState
     = (Inr (placeOf nearFeature ''M6''),
        \<lparr>geocodeStore = [(''__v'', GNum 2), (''m6'', GPlace (placeOf nearFeature ''M6''))],
         osrmStore = [],
         requests = [PhotonReq ''M6, UK'', PhotonReq ''M6''],
         ops = 3\<rparr>)"
  by (simp add: geocodePlace_def Let_def key_m6 normalizeQ_m6 emptyState_def currentVersion_def
        GEOCODE_CACHE_VERSION_def freshCacheOf_def cacheHit_def objGet_def objSet_def
        tryFetch_frame near_choice near_place storage_defs world_fields)

lemma retry_second_lookup:
  "geocodePlace w ''M6'' None
     \<lparr>geocodeStore = [(''__v'', GNum 2), (''m6'', GPlace (placeOf nearFeature ''M6''))],
      osrmStore = [],
      requests = [PhotonReq ''M6, UK'', PhotonReq ''M6''],
      ops = 3\<rparr>
     = (if storage w 3
        then (Inr (placeOf nearFeature ''M6''),
              \<lparr>geocodeStore = [(''__v'', GNum 2), (''m6'', GPlace (placeOf nearFeature ''M6''))],
               osrmStore = [],
               requests = [PhotonReq ''M6, UK'', PhotonReq ''M6''],
               ops = 4\<rparr>)
        else geocodePlace w ''M6'' None
               \<lparr>geocodeStore = [(''__v'', GNum 2), (''m6'', GPlace (placeOf nearFeature ''M6''))],
                osrmStore = [],
                requests = [PhotonReq ''M6, UK'', PhotonReq ''M6''],
                ops = 3\<rparr>)"
  by (simp add: geocodePlace_def Let_def key_m6 currentVersion_def GEOCODE_CACHE_VERSION_def
        freshCacheOf_def cacheHit_def objGet_def near_place storage_defs)

theorem repeated_lookup_served_from_cache_witness:
  "geocodePlace offline '' m6 '' (Some southPoint)
     (snd (geocodePlace retryNet ''M6'' None emptyState))
     = (Inr (placeOf nearFeature ''M6''),
        (snd (geocodePlace retryNet ''M6'' None emptyState))\<lparr>ops := 4\<rparr>)
   \<and> length (requests (snd (geocodePlace retryNet ''M6'' None emptyState))) \<le> 2"
proof -
  have k: "cacheKey ''M6'' \<noteq> ''__v''" "cacheKey ''M6'' \<noteq> ''__proto__''"
    by (simp_all add: key_m6)
  have same: "cacheKey '' m6 '' = cacheKey ''M6''" by code_simp
  have first: "geocodePlace retryNet ''M6'' None emptyState
                 = (Inr (placeOf nearFeature ''M6''),
                    snd (geocodePlace retryNet ''M6'' None emptyState))"
    by (simp add: retry_first_lookup)
  have st: "storage retryNet (ops (snd (geocodePlace retryNet ''M6'' None emptyState)) - 1)"
           "storage offline (ops (snd (geocodePlace retryNet ''M6'' None emptyState)))"
    by (simp_all add: world_fields)
  show ?thesis
    using repeated_lookup_served_from_cache[OF first k same st, of "Some southPoint"]
    by (simp add: retry_first_lookup)
qed

text \<open>
  C8 as stated fails: two lookups of one label in succession make two requests in
  total, because the first place search of the first lookup finds nothing and its
  second one does.
\<close>

theorem two_lookups_two_requests:
  "fst (geocodePlace retryNet ''M6'' None emptyState) = Inr (placeOf nearFeature ''M6'')
   \<and> fst (geocodePlace retryNet ''M6'' None (snd (geocodePlace retryNet ''M6'' None emptyState)))
       = Inr (placeOf nearFeature ''M6'')
   \<and> requests (snd (geocodePlace retryNet ''M6'' None
                      (snd (geocodePlace retryNet ''M6'' None emptyState))))
       = [PhotonReq ''M6, UK'', PhotonReq ''M6'']"
  by (simp add: retry_first_lookup retry_second_lookup world_fields)

text \<open>
  The condition on \<open>localStorage\<close> is needed: when the write of the first lookup is
  refused, the lookup still returns the place it found, and the next lookup of the same
  label searches again.
\<close>

lemma refused_write_searches_again:
  "geocodePlace refusingNet ''M6'' None emptyState
     = (Inr (placeOf nearFeature ''M6''),
        emptyState\<lparr>requests := [PhotonReq ''M6, UK''], ops := 3\<rparr>)
   \<and> geocodePlace refusingNet ''M6'' None
       (emptyState\<lparr>requests := [PhotonReq ''M6, UK''], ops := 3\<rparr>)
     = (Inr (placeOf nearFeature ''M6''),
        \<lparr>geocodeStore = [(''__v'', GNum 2), (''m6'', GPlace (placeOf nearFeature ''M6''))],
         osrmStore = [],
         requests = [PhotonReq ''M6, UK'', PhotonReq ''M6, UK''],
         ops = 6\<rparr>)"
  by (simp add: geocodePlace_def Let_def key_m6 normalizeQ_m6 emptyState_def currentVersion_def
        GEOCODE_CACHE_VERSION_def freshCacheOf_def cacheHit_def objGet_def objSet_def
        tryFetch_frame near_choice near_place storage_defs world_fields)

section \<open>Validation of the routing cache\<close>

lemma bbox_fold:
  assumes "foldl (\<lambda>(minLat, maxLat, minLng, maxLng) (x, y).
                    (min minLat y, max maxLat y, min minLng x, max maxLng x))
                 (a::real, b::real, c::real, d::real) cs = (a', b', c', d')"
  shows "a' \<le> a \<and> b \<le> b' \<and> c' \<le> c \<and> d \<le> d'
       \<and> (\<forall>(x, y) \<in> set cs. a' \<le> y \<and> y \<le> b' \<and> c' \<le> x \<and> x \<le> d')"
  using assms
proof (induction cs arbitrary: a b c d)
  case Nil
  then show ?case by simp
next
  case (Cons pt cs)
  obtain x y where pt: "pt = (x, y)" by (cases pt)
  from Cons.prems have "foldl (\<lambda>(minLat, maxLat, minLng, maxLng) (x, y).
                    (min minLat y, max maxLat y, min minLng x, max maxLng x))
                 (min a y, max b y, min c x, max d x) cs = (a', b', c', d')"
    by (simp add: pt)
  from Cons.IH[OF this] show ?case by (auto simp: pt)
qed

lemma bbox_contains:
  assumes "bbox cs = (a, b, c, d)" "(x, y) \<in> set cs"
  shows "a \<le> y \<and> y \<le> b \<and> c \<le> x \<and> x \<le> d"
  using bbox_fold[OF assms(1)[unfolded bbox_def]] assms(2) by auto

lemma outside_not_within:
  assumes "cs \<noteq> []" "entirelyOutside cs"
  shows "\<not> withinBox cs"
proof -
  obtain a b c d where bb: "bbox cs = (a, b, c, d)" by (cases "bbox cs") auto
  obtain x y where pt: "(x, y) \<in> set cs" using assms(1) by (cases cs) auto
  note in_box = bbox_contains[OF bb pt]
  from assms(2) have "y < 45 \<or> y > 62 \<or> x < - 12 \<or> x > 5"
    using pt by (auto simp: entirelyOutside_def list_all_iff)
  then show ?thesis using in_box by (auto simp: withinBox_def bb)
qed

lemma sanePoints_nonempty: "sanePoints v = Some cs \<Longrightarrow> cs \<noteq> []"
proof -
  assume a: "sanePoints v = Some cs"
  then obtain es where es: "v = SArr es" "length es \<ge> 2" "those (map elemPair es) = Some cs"
    by (auto simp: sanePoints_def split: stored.splits if_splits)
  then obtain e es' where "es = e # es'" by (cases es) auto
  then show "cs \<noteq> []" using es(3) by (auto split: option.splits)
qed

text \<open>
  A truthy entry that fails validation is deleted and the route is requested anew; what
  the store holds afterwards depends on whether \<open>localStorage\<close> accepts the two writes.
  When the cache cannot be read at all, the route is requested as well.
\<close>

lemma osrmRoute_rejects:
  assumes "osrmKey a b = Some k" "storage w (ops s)"
      and "map_of (osrmStore s) k = Some v" "truthyStored v"
      and "cachedRoute (osrmStore s) k = None"
  shows "fst (osrmRoute w a b s) = Inr (refetched w a b s)
       \<and> requests (snd (osrmRoute w a b s)) = requests s @ [OsrmReq a b]
       \<and> osrmStore (snd (osrmRoute w a b s)) =
           (case refetched w a b s of
              None \<Rightarrow> if storage w (ops s + 1) then AList.delete k (osrmStore s) else osrmStore s
            | Some coords \<Rightarrow>
                if storage w (ops s + 2)
                then evict (AList.update k (SArr coords) (AList.delete k (osrmStore s)))
                else if storage w (ops s + 1) then AList.delete k (osrmStore s)
                else osrmStore s)"
  using assms
  by (auto simp: osrmRoute_def Let_def refetched_def readOsrm_def writeOsrm_def
           split: option.splits)

lemma osrmRoute_unread:
  assumes "osrmKey a b = Some k" "\<not> storage w (ops s)"
  shows "fst (osrmRoute w a b s) = Inr (refetched w a b s)
       \<and> requests (snd (osrmRoute w a b s)) = requests s @ [OsrmReq a b]"
  using assms
  by (auto simp: osrmRoute_def Let_def refetched_def readOsrm_def writeOsrm_def cachedRoute_def
           split: option.splits)

text \<open>
  C9.  If the routing cache holds, for a pair of points, a truthy value (every array is
  one) that is malformed, or a well-formed polyline that lies entirely outside the box
  \<open>lat \<in> [45, 62]\<close>, \<open>lng \<in> [-12, 5]\<close>, then \<open>osrmRoute\<close> returns what the routing request
  it makes returns, not the cached value; it makes exactly that one request; and, the
  cache having been read, the entry is deleted from it: afterwards the store holds for
  the pair nothing or the newly fetched polyline, as far as \<open>localStorage\<close> accepts the
  writes.
\<close>

theorem invalid_cached_route_refetched:
  assumes "osrmKey a b = Some k"
      and "map_of (osrmStore s) k = Some v" "truthyStored v"
      and "\<not> looksSane v \<or> (\<exists>cs. sanePoints v = Some cs \<and> entirelyOutside cs)"
  shows "fst (osrmRoute nw a b s) = Inr (refetched nw a b s)
       \<and> requests (snd (osrmRoute nw a b s)) = requests s @ [OsrmReq a b]
       \<and> (storage nw (ops s) \<longrightarrow>
            osrmStore (snd (osrmRoute nw a b s)) =
              (case refetched nw a b s of
                 None \<Rightarrow>
                   if storage nw (ops s + 1) then AList.delete k (osrmStore s) else osrmStore s
               | Some coords \<Rightarrow>
                   if storage nw (ops s + 2)
                   then evict (AList.update k (SArr coords) (AList.delete k (osrmStore s)))
                   else if storage nw (ops s + 1) then AList.delete k (osrmStore s)
                   else osrmStore s))
       \<and> map_of (AList.delete k (osrmStore s)) k = None"
proof -
  have c: "cachedRoute (osrmStore s) k = None"
    using assms(4)
  proof
    assume "\<not> looksSane v"
    then show ?thesis by (simp add: cachedRoute_def assms(2) looksSane_def)
  next
    assume "\<exists>cs. sanePoints v = Some cs \<and> entirelyOutside cs"
    then obtain cs where cs: "sanePoints v = Some cs" "entirelyOutside cs" by blast
    have "\<not> withinBox cs" using outside_not_within[OF sanePoints_nonempty[OF cs(1)] cs(2)] .
    then show ?thesis by (simp add: cachedRoute_def assms(2) cs(1))
  qed
  show ?thesis
  proof (cases "storage nw (ops s)")
    case True
    from osrmRoute_rejects[OF assms(1) True assms(2,3) c] show ?thesis
      by (simp add: delete_conv')
  next
    case False
    from osrmRoute_unread[OF assms(1) False] show ?thesis
      using False by (simp add: delete_conv')
  qed
qed

lemma stray_entry:
  "sanePoints (SArr strayPolyline) = Some [(10, 10), (11, 11)]"
  "entirelyOutside [(10, 10), (11, 11)]"
  "\<not> looksSane (SArr [EOther undefinedV undefinedV, ENull])"
  by (simp_all add: sanePoints_def entirelyOutside_def looksSane_def strayPolyline_def)

theorem invalid_cached_route_refetched_witness:
  "fst (osrmRoute routedNet pin yardPin strayRouteState) = Inr (Some routedPolyline)
   \<and> requests (snd (osrmRoute routedNet pin yardPin strayRouteState)) = [OsrmReq pin yardPin]
   \<and> osrmStore (snd (osrmRoute routedNet pin yardPin strayRouteState))
       = [(pinKey, SArr routedPolyline)]
   \<and> fst (osrmRoute offline pin yardPin brokenRouteState) = Inr None
   \<and> requests (snd (osrmRoute offline pin yardPin brokenRouteState)) = [OsrmReq pin yardPin]
   \<and> osrmStore (snd (osrmRoute offline pin yardPin brokenRouteState)) = []"
proof -
  have s: "map_of (osrmStore strayRouteState) pinKey = Some (SArr strayPolyline)"
    by (simp add: strayRouteState_def)
  have b: "map_of (osrmStore brokenRouteState) pinKey
             = Some (SArr [EOther undefinedV undefinedV, ENull])"
    by (simp add: brokenRouteState_def)
  have o: "\<not> looksSane (SArr strayPolyline)
           \<or> (\<exists>cs. sanePoints (SArr strayPolyline) = Some cs \<and> entirelyOutside cs)"
    using stray_entry(1,2) by simp
  have m: "\<not> looksSane (SArr [EOther undefinedV undefinedV, ENull])
           \<or> (\<exists>cs. sanePoints (SArr [EOther undefinedV undefinedV, ENull]) = Some cs
                   \<and> entirelyOutside cs)"
    using stray_entry(3) by simp
  have r1: "refetched routedNet pin yardPin strayRouteState = Some routedPolyline"
    by (simp add: refetched_def world_fields routedPolyline_def)
  have r2: "refetched offline pin yardPin brokenRouteState = None"
    by (simp add: refetched_def world_fields)
  have f: "requests strayRouteState = []" "requests brokenRouteState = []"
          "osrmStore strayRouteState = [(pinKey, SArr strayPolyline)]"
          "osrmStore brokenRouteState = [(pinKey, SArr [EOther undefinedV undefinedV, ENull])]"
    by (simp_all add: strayRouteState_def brokenRouteState_def emptyState_def)
  have t: "truthyStored (SArr strayPolyline)"
          "truthyStored (SArr [EOther undefinedV undefinedV, ENull])"
    by simp_all
  have e: "\<And>v. evict [(pinKey, v)] = [(pinKey, v)]"
    by (simp add: evict_def)
  show ?thesis
    using invalid_cached_route_refetched[OF pin_key s t(1) o, of routedNet]
          invalid_cached_route_refetched[OF pin_key b t(2) m, of offline]
    by (simp add: r1 r2 f e world_fields)
qed

text \<open>
  A falsy value under the key (\<open>null\<close>, \<open>0\<close>, \<open>""\<close>, \<open>false\<close>) is no entry for
  \<open>if(cache[k])\<close>: the route is requested just the same, and the value stays until a
  fetched polyline replaces it.
\<close>

lemma falsy_entry_is_a_miss:
  assumes "osrmKey a b = Some k" "map_of (osrmStore s) k = Some (SOther False)"
  shows "fst (osrmRoute nw a b s) = Inr (refetched nw a b s)
       \<and> requests (snd (osrmRoute nw a b s)) = requests s @ [OsrmReq a b]"
  using assms
  by (auto simp: osrmRoute_def Let_def refetched_def cachedRoute_def readOsrm_def writeOsrm_def
           split: option.splits)

text \<open>
  The key is built before the cache is consulted: between points with a coordinate that
  is not a number, \<open>osrmRoute\<close> throws and makes no request.
\<close>

lemma osrmRoute_throws:
  assumes "osrmKey a b = None"
  shows "fst (osrmRoute w a b s) = Inl TypeError
       \<and> requests (snd (osrmRoute w a b s)) = requests s"
  using assms by (simp add: osrmRoute_def readOsrm_def)

end
